theory Spec2Isabelle
  imports Complex_Main
begin

section \<open>QString operations used by the Gerber generator\<close>

text \<open>
  The generator works on \<^verbatim>\<open>QString\<close> values. They are modelled as HOL strings; the
  library operations that \<^verbatim>\<open>gerbergenerator.cpp\<close> calls on them are written out here
  as executable functions on character lists.
\<close>

datatype CaseSensitivity = CaseInsensitive | CaseSensitive

definition foldCase :: "char \<Rightarrow> char" where
  "foldCase c =
     (case map_of (zip ''abcdefghijklmnopqrstuvwxyz'' ''ABCDEFGHIJKLMNOPQRSTUVWXYZ'') c of
        Some u \<Rightarrow> u
      | None \<Rightarrow> c)"

definition sameChar :: "CaseSensitivity \<Rightarrow> char \<Rightarrow> char \<Rightarrow> bool" where
  "sameChar cs a b = (case cs of CaseSensitive \<Rightarrow> a = b | CaseInsensitive \<Rightarrow> foldCase a = foldCase b)"

text \<open>\<^verbatim>\<open>s.startsWith(p, cs)\<close>\<close>

fun startsWith :: "string \<Rightarrow> string \<Rightarrow> CaseSensitivity \<Rightarrow> bool" where
  "startsWith s [] cs = True"
| "startsWith [] (p # ps) cs = False"
| "startsWith (c # s) (p # ps) cs = (sameChar cs c p \<and> startsWith s ps cs)"

text \<open>\<^verbatim>\<open>s.contains(p, cs)\<close>\<close>

fun containsStr :: "string \<Rightarrow> string \<Rightarrow> CaseSensitivity \<Rightarrow> bool" where
  "containsStr [] p cs = startsWith [] p cs"
| "containsStr (c # s) p cs = (startsWith (c # s) p cs \<or> containsStr s p cs)"

text \<open>\<^verbatim>\<open>s.endsWith(p, cs)\<close>\<close>

definition endsWith :: "string \<Rightarrow> string \<Rightarrow> CaseSensitivity \<Rightarrow> bool" where
  "endsWith s p cs = startsWith (rev s) (rev p) cs"

text \<open>\<^verbatim>\<open>QChar::isSpace\<close> on the Latin-1 range: tab, line feed, vertical tab, form feed,
  carriage return and space.\<close>

definition isSpace :: "char \<Rightarrow> bool" where
  "isSpace c = (c \<in> set [CHR 0x09, CHR 0x0A, CHR 0x0B, CHR 0x0C, CHR 0x0D, CHR '' ''])"

text \<open>\<^verbatim>\<open>s.trimmed()\<close>: white space removed from both ends.\<close>

definition trimmed :: "string \<Rightarrow> string" where
  "trimmed s = rev (dropWhile isSpace (rev (dropWhile isSpace s)))"

text \<open>\<^verbatim>\<open>QString::number(i)\<close> for a non-negative integer: its decimal digits.\<close>

definition digitChar :: "nat \<Rightarrow> char" where
  "digitChar d = ''0123456789'' ! (d mod 10)"

fun showNat :: "nat \<Rightarrow> string" where
  "showNat n = (if n < 10 then [digitChar n] else showNat (n div 10) @ [digitChar n])"

declare showNat.simps [simp del]

text \<open>
  \<^verbatim>\<open>QString::toDouble\<close> and \<^verbatim>\<open>QString::number(double)\<close> belong to the library, and
  the functions below take them as parameters \<open>toDouble\<close> and \<open>number\<close>; a
  \<^verbatim>\<open>double\<close> is modelled as a real number. For evaluating examples, \<open>toDoubleDec\<close> reads
  an optional sign, digits and an optional fraction, and yields 0 on anything else, as
  \<^verbatim>\<open>toDouble\<close> does when the conversion fails; \<open>numberDec\<close> prints a number that is an
  integer by its digits.
\<close>

definition digitVal :: "char \<Rightarrow> nat option" where
  "digitVal c = map_of (zip ''0123456789'' [0, 1, 2, 3, 4, 5, 6, 7, 8, 9]) c"

fun digitsVal :: "string \<Rightarrow> nat \<Rightarrow> nat option" where
  "digitsVal [] acc = Some acc"
| "digitsVal (c # s) acc = (case digitVal c of None \<Rightarrow> None | Some d \<Rightarrow> digitsVal s (10 * acc + d))"

definition unsignedDec :: "string \<Rightarrow> real option" where
  "unsignedDec s =
     (let ip = takeWhile (\<lambda>c. c \<noteq> CHR ''.'') s;
          fp = drop 1 (dropWhile (\<lambda>c. c \<noteq> CHR ''.'') s)
      in if ip = [] \<and> fp = [] then None
         else (case (digitsVal ip 0, digitsVal fp 0) of
                 (Some i, Some f) \<Rightarrow> Some (real i + real f / 10 ^ length fp)
               | _ \<Rightarrow> None))"

definition toDoubleDec :: "string \<Rightarrow> real" where
  "toDoubleDec s =
     (case s of
        CHR ''-'' # r \<Rightarrow> (case unsignedDec r of Some v \<Rightarrow> - v | None \<Rightarrow> 0)
      | _ \<Rightarrow> (case unsignedDec s of Some v \<Rightarrow> v | None \<Rightarrow> 0))"

definition numberDec :: "real \<Rightarrow> string" where
  "numberDec v = (if 0 \<le> v then showNat (nat \<lfloor>v\<rfloor>) else CHR ''-'' # showNat (nat \<lfloor>- v\<rfloor>))"

section \<open>Pick-and-place: mount technology\<close>

definition knownTHTPackages :: "string list" where
  "knownTHTPackages =
     [''DIP'', ''TO-3'', ''TO-5'', ''TO-8'', ''TO-18'', ''TO-66'', ''TO-72'',
      ''TO-92'', ''TO92'', ''TO-99'', ''TO-100'', ''TO-126'', ''TO-218'', ''TO-220'',
      ''TO220'', ''TO-247'', ''TO-252'', ''TO-257'', ''TO-258'', ''TO-264'',
      ''PFM'', ''DIL'', ''ZIP'', ''SIP'']"

text \<open>The range-for loop over \<^verbatim>\<open>knownTHTPackages\<close>: the first keyword found in the package
  name decides, and the fall-through after the loop is \<^verbatim>\<open>"SMT"\<close>.\<close>

fun checkKnownPackages :: "string \<Rightarrow> string list \<Rightarrow> string" where
  "checkKnownPackages package [] = ''SMT''"
| "checkKnownPackages package (knownTHTPackage # rest) =
     (if containsStr package knownTHTPackage CaseInsensitive
      then (if \<not> containsStr package ''LEADLESS'' CaseInsensitive then ''THT'' else ''SMT'')
      else checkKnownPackages package rest)"

definition checkMountTechnology :: "string \<Rightarrow> string" where
  "checkMountTechnology package =
     (if package = [] then ''MANUAL''
      else if containsStr package ''THT'' CaseInsensitive then ''THT''
      else if containsStr package ''SMD'' CaseInsensitive then ''SMT''
      else checkKnownPackages package knownTHTPackages)"

section \<open>The document tree\<close>

text \<open>
  The generator edits a \<^verbatim>\<open>QDomDocument\<close> in place through element handles. An element is
  modelled as a tree node that carries a key: the key is the identity of the element, a
  handle (\<^verbatim>\<open>QDomElement\<close>) is a key, and every operation on a handle is an operation on
  the tree that takes the key. Only element nodes are modelled. Attributes are an
  association list from names to values.
\<close>

datatype node =
  Elem (nodeKey: nat) (tagName: string) (attrs: "(string \<times> string) list") (childNodes: "node list")

text \<open>All elements below a node in document order, without the node itself.\<close>

fun descendants :: "node \<Rightarrow> node list" where
  "descendants (Elem k t a cs) = concat (map (\<lambda>c. c # descendants c) cs)"

definition allNodes :: "node \<Rightarrow> node list" where
  "allNodes n = n # descendants n"

definition keys :: "node \<Rightarrow> nat list" where
  "keys n = map nodeKey (allNodes n)"

text \<open>\<^verbatim>\<open>root.elementsByTagName(name)\<close>: the descendants with that tag, in document order.\<close>

definition elementsByTagName :: "node \<Rightarrow> string \<Rightarrow> node list" where
  "elementsByTagName root1 name = filter (\<lambda>n. tagName n = name) (descendants root1)"

text \<open>\<^verbatim>\<open>e.attribute(name)\<close>: the value, or the default (an empty string) when the attribute
  is absent; \<^verbatim>\<open>hasAttribute\<close> tells the two apart, as \<^verbatim>\<open>isNull\<close> does on the result.\<close>

definition attribute :: "node \<Rightarrow> string \<Rightarrow> string" where
  "attribute e name = (case map_of (attrs e) name of Some v \<Rightarrow> v | None \<Rightarrow> [])"

definition hasAttribute :: "node \<Rightarrow> string \<Rightarrow> bool" where
  "hasAttribute e name = (map_of (attrs e) name \<noteq> None)"

text \<open>Setting and removing an entry of an attribute list.\<close>

fun putAttr :: "string \<Rightarrow> string \<Rightarrow> (string \<times> string) list \<Rightarrow> (string \<times> string) list" where
  "putAttr name v [] = [(name, v)]"
| "putAttr name v ((n, w) # a) = (if n = name then (n, v) # a else (n, w) # putAttr name v a)"

definition dropAttr :: "string \<Rightarrow> (string \<times> string) list \<Rightarrow> (string \<times> string) list" where
  "dropAttr name a = filter (\<lambda>(n, w). n \<noteq> name) a"

text \<open>An edit of the tag and the attributes of the element with key \<open>k\<close>.\<close>

fun modifyAt :: "nat \<Rightarrow> (string \<Rightarrow> string) \<Rightarrow> ((string \<times> string) list \<Rightarrow> (string \<times> string) list)
    \<Rightarrow> node \<Rightarrow> node" where
  "modifyAt k f g (Elem k' t a cs) =
     Elem k' (if k' = k then f t else t) (if k' = k then g a else a) (map (modifyAt k f g) cs)"

text \<open>\<^verbatim>\<open>e.setTagName(name)\<close>, \<^verbatim>\<open>e.setAttribute(name, v)\<close>, \<^verbatim>\<open>e.removeAttribute(name)\<close>
  for the element \<open>e\<close> with key \<open>k\<close>.\<close>

definition setTagName :: "nat \<Rightarrow> string \<Rightarrow> node \<Rightarrow> node" where
  "setTagName k name root1 = modifyAt k (\<lambda>_. name) (\<lambda>a. a) root1"

definition setAttribute :: "nat \<Rightarrow> string \<Rightarrow> string \<Rightarrow> node \<Rightarrow> node" where
  "setAttribute k name v root1 = modifyAt k (\<lambda>t. t) (putAttr name v) root1"

definition removeAttribute :: "nat \<Rightarrow> string \<Rightarrow> node \<Rightarrow> node" where
  "removeAttribute k name root1 = modifyAt k (\<lambda>t. t) (dropAttr name) root1"

text \<open>The chains from an element with key \<open>k\<close> up to the root: the element first, then
  its parent, and so on. With distinct keys there is at most one.\<close>

fun chainsTo :: "nat \<Rightarrow> node \<Rightarrow> node list list" where
  "chainsTo k (Elem k' t a cs) =
     (if k' = k then [[Elem k' t a cs]] else [])
     @ map (\<lambda>ch. ch @ [Elem k' t a cs]) (concat (map (chainsTo k) cs))"

definition ancestry :: "nat \<Rightarrow> node \<Rightarrow> node list" where
  "ancestry k root1 = (case chainsTo k root1 of [] \<Rightarrow> [] | ch # _ \<Rightarrow> ch)"

text \<open>The element behind a handle, and \<^verbatim>\<open>e.parentNode()\<close>.\<close>

definition findNode :: "nat \<Rightarrow> node \<Rightarrow> node option" where
  "findNode k root1 = (case ancestry k root1 of [] \<Rightarrow> None | e # _ \<Rightarrow> Some e)"

definition parentNode :: "nat \<Rightarrow> node \<Rightarrow> node option" where
  "parentNode k root1 = (case ancestry k root1 of e # p # _ \<Rightarrow> Some p | _ \<Rightarrow> None)"

text \<open>\<^verbatim>\<open>ref.parentNode().insertBefore(new, ref)\<close> and \<^verbatim>\<open>insertAfter\<close>, \<open>k\<close> the key of
  \<^verbatim>\<open>ref\<close>; \<^verbatim>\<open>p.appendChild(new)\<close>, \<open>k\<close> the key of \<^verbatim>\<open>p\<close>; and
  \<^verbatim>\<open>e.parentNode().removeChild(e)\<close>, \<open>k\<close> the key of \<^verbatim>\<open>e\<close>.\<close>

fun insertBefore :: "node \<Rightarrow> nat \<Rightarrow> node \<Rightarrow> node" where
  "insertBefore new k (Elem k' t a cs) =
     Elem k' t a (concat (map (\<lambda>c. (if nodeKey c = k then [new] else []) @ [insertBefore new k c]) cs))"

fun insertAfter :: "node \<Rightarrow> nat \<Rightarrow> node \<Rightarrow> node" where
  "insertAfter new k (Elem k' t a cs) =
     Elem k' t a (concat (map (\<lambda>c. insertAfter new k c # (if nodeKey c = k then [new] else [])) cs))"

fun appendChild :: "nat \<Rightarrow> node \<Rightarrow> node \<Rightarrow> node" where
  "appendChild k new (Elem k' t a cs) =
     Elem k' t a (map (appendChild k new) cs @ (if k' = k then [new] else []))"

fun removeChild :: "nat \<Rightarrow> node \<Rightarrow> node" where
  "removeChild k (Elem k' t a cs) =
     Elem k' t a (map (removeChild k) (filter (\<lambda>c. nodeKey c \<noteq> k) cs))"

text \<open>A key that no element of the tree carries, for a newly created element.\<close>

fun maxKey :: "node \<Rightarrow> nat" where
  "maxKey (Elem k t a cs) = foldr max (map maxKey cs) k"

definition freshKey :: "node \<Rightarrow> nat" where
  "freshKey root1 = Suc (maxKey root1)"

text \<open>Squashing: the tag \<^verbatim>\<open>g\<close> makes an element a container that renders nothing.\<close>

fun squashKeys :: "nat set \<Rightarrow> node \<Rightarrow> node" where
  "squashKeys K (Elem k t a cs) = Elem k (if k \<in> K then ''g'' else t) a (map (squashKeys K) cs)"

section \<open>Clipping to the board: drill holes on layers other than drill\<close>

datatype ForWhy = ForCopper | ForSilk | ForOutline | ForMask | ForDrill

text \<open>
  Lines 393 to 408 of \<^verbatim>\<open>clipToBoard\<close>. \<^verbatim>\<open>FSvgRenderer::NonConnectorName\<close> is declared
  outside the files at hand and is a parameter, as is \<^verbatim>\<open>QString::toDouble\<close>. The first
  loop collects the handles, the second retags them.
\<close>

definition isJustHole :: "string \<Rightarrow> (string \<Rightarrow> real) \<Rightarrow> node \<Rightarrow> bool" where
  "isJustHole NonConnectorName toDouble circle =
     (containsStr (attribute circle ''id'') NonConnectorName CaseSensitive
      \<and> toDouble (attribute circle ''stroke-width'') = 0)"

definition squashJustHoles :: "string \<Rightarrow> (string \<Rightarrow> real) \<Rightarrow> ForWhy \<Rightarrow> node \<Rightarrow> node" where
  "squashJustHoles NonConnectorName toDouble forWhy root1 =
     (if forWhy \<noteq> ForDrill then
        let nodeList = elementsByTagName root1 ''circle'';
            justHoles = filter (isJustHole NonConnectorName toDouble) nodeList
        in fold (\<lambda>circle doc. setTagName (nodeKey circle) ''g'' doc) justHoles root1
      else root1)"

text \<open>What the claim says of that step, written on the tree: every element below the root
  that is a circle and a hole is retagged, and nothing else changes.\<close>

fun squashWhere :: "(node \<Rightarrow> bool) \<Rightarrow> node \<Rightarrow> node" where
  "squashWhere P (Elem k t a cs) =
     Elem k (if P (Elem k t a cs) then ''g'' else t) a (map (squashWhere P) cs)"

definition squashBelow :: "(node \<Rightarrow> bool) \<Rightarrow> node \<Rightarrow> node" where
  "squashBelow P root1 = Elem (nodeKey root1) (tagName root1) (attrs root1) (map (squashWhere P) (childNodes root1))"

section \<open>Clipping to the board: the cleaning pass\<close>

text \<open>
  Modelled from the spec: \<^verbatim>\<open>TextUtils::squashElement\<close> is not among the files at hand.
  By the spec's geometry cleaner (steps 1 to 4) a call squashes every element of the named
  kind or, when an attribute is named, every such element on which the attribute is present
  with a value that the pattern matches; it returns whether it squashed any. A pattern is
  modelled as a predicate on strings, and the empty pattern matches every string.
\<close>

definition squashElement :: "node \<Rightarrow> string \<Rightarrow> string \<Rightarrow> (string \<Rightarrow> bool) \<Rightarrow> node \<times> bool" where
  "squashElement doc elementName attName matchContent =
     (let hits = filter (\<lambda>e. attName = [] \<or> (hasAttribute e attName \<and> matchContent (attribute e attName)))
                   (elementsByTagName doc elementName)
      in (fold (\<lambda>e d. setTagName (nodeKey e) ''g'' d) hits doc, hits \<noteq> []))"

definition emptyPattern :: "string \<Rightarrow> bool" where
  "emptyPattern s = True"

text \<open>The pattern \<^verbatim>\<open>^(?!none).*$\<close>: the value does not begin with \<^verbatim>\<open>none\<close>; the dot
  stops at a line feed and the dollar stands at the end or before a last line feed.\<close>

definition notNone :: "string \<Rightarrow> bool" where
  "notNone s = (\<not> startsWith s ''none'' CaseSensitive \<and> CHR 0x0A \<notin> set (butlast s))"

text \<open>
  The loop over the path elements (lines 470 to 487): a path is squashed when it or one of
  its ancestors carries a transform attribute whose transform is scaling. The parameter
  \<open>isScaling\<close> stands for \<^verbatim>\<open>TextUtils::transformStringToTransform(s).isScaling()\<close>.
  Retagging does not rebuild the node list, so the loop visits the paths found at its start.
\<close>

definition scaledAncestry :: "(string \<Rightarrow> bool) \<Rightarrow> nat \<Rightarrow> node \<Rightarrow> bool" where
  "scaledAncestry isScaling k doc =
     list_ex (\<lambda>parent. hasAttribute parent ''transform'' \<and> isScaling (attribute parent ''transform''))
       (ancestry k doc)"

definition squashScaledPaths :: "(string \<Rightarrow> bool) \<Rightarrow> node \<Rightarrow> node \<times> bool" where
  "squashScaledPaths isScaling root1 =
     fold (\<lambda>path (doc, anyConverted).
             if scaledAncestry isScaling (nodeKey path) doc
             then (setTagName (nodeKey path) ''g'' doc, True)
             else (doc, anyConverted))
       (elementsByTagName root1 ''path'') (root1, False)"

text \<open>
  Lines 421 to 487 of \<^verbatim>\<open>clipToBoard\<close>. The patterns \<^verbatim>\<open>AaCc\<close> (a curve command) and
  \<^verbatim>\<open>MultipleZs\<close> (several contours) are declared in a header that is not at hand and are
  parameters. The result is the document and \<^verbatim>\<open>anyConverted\<close>.
\<close>

definition cleanGeometry :: "(string \<Rightarrow> bool) \<Rightarrow> (string \<Rightarrow> bool) \<Rightarrow> (string \<Rightarrow> bool) \<Rightarrow> node \<Rightarrow> node \<times> bool" where
  "cleanGeometry AaCc MultipleZs isScaling domDocument1 =
     (let (d, c1) = squashElement domDocument1 ''text'' [] emptyPattern;
          (d, c2) = squashElement d ''ellipse'' [] emptyPattern;
          (d, c3) = squashElement d ''rect'' ''rx'' emptyPattern;
          (d, c4) = squashElement d ''rect'' ''ry'' emptyPattern;
          (d, c5) = squashElement d ''rect'' ''stroke-dasharray'' notNone;
          (d, c6) = squashElement d ''circle'' ''stroke-dasharray'' notNone;
          (d, c7) = squashElement d ''line'' ''stroke-dasharray'' notNone;
          (d, c8) = squashElement d ''path'' ''d'' AaCc;
          (d, c9) = squashElement d ''path'' ''d'' MultipleZs;
          (d, c10) = squashElement d ''image'' [] emptyPattern;
          (d, c11) = squashScaledPaths isScaling d
      in (d, c1 \<or> c2 \<or> c3 \<or> c4 \<or> c5 \<or> c6 \<or> c7 \<or> c8 \<or> c9 \<or> c10 \<or> c11))"

text \<open>The Gerber-safe set of the claim: what an element below the root must be.\<close>

definition noDash :: "node \<Rightarrow> bool" where
  "noDash e = (\<not> hasAttribute e ''stroke-dasharray'' \<or> attribute e ''stroke-dasharray'' = ''none'')"

definition gerberSafeElement :: "(string \<Rightarrow> bool) \<Rightarrow> (string \<Rightarrow> bool) \<Rightarrow> (string \<Rightarrow> bool) \<Rightarrow> node \<Rightarrow> node \<Rightarrow> bool" where
  "gerberSafeElement AaCc MultipleZs isScaling doc e =
     (tagName e \<noteq> ''text'' \<and> tagName e \<noteq> ''ellipse'' \<and> tagName e \<noteq> ''image''
      \<and> (if tagName e = ''rect''
         then \<not> hasAttribute e ''rx'' \<and> \<not> hasAttribute e ''ry'' \<and> noDash e
         else if tagName e = ''circle'' \<or> tagName e = ''line''
         then noDash e
         else if tagName e = ''path''
         then \<not> AaCc (attribute e ''d'') \<and> \<not> MultipleZs (attribute e ''d'')
              \<and> \<not> scaledAncestry isScaling (nodeKey e) doc
         else True))"

definition gerberSafe :: "(string \<Rightarrow> bool) \<Rightarrow> (string \<Rightarrow> bool) \<Rightarrow> (string \<Rightarrow> bool) \<Rightarrow> node \<Rightarrow> bool" where
  "gerberSafe AaCc MultipleZs isScaling doc =
     list_all (gerberSafeElement AaCc MultipleZs isScaling doc) (descendants doc)"

section \<open>Clipping to the board: the bounds test\<close>

text \<open>
  \<^verbatim>\<open>QRectF\<close> and the affine part of \<^verbatim>\<open>QTransform\<close>, over the real numbers;
  \<^verbatim>\<open>mapRect\<close> yields the bounding rectangle of the four mapped corners.
\<close>

datatype QRectF = QRectF (rectX: real) (rectY: real) (rectWidth: real) (rectHeight: real)

definition rectLeft :: "QRectF \<Rightarrow> real" where "rectLeft r = rectX r"
definition rectTop :: "QRectF \<Rightarrow> real" where "rectTop r = rectY r"
definition rectRight :: "QRectF \<Rightarrow> real" where "rectRight r = rectX r + rectWidth r"
definition rectBottom :: "QRectF \<Rightarrow> real" where "rectBottom r = rectY r + rectHeight r"

definition rectCenter :: "QRectF \<Rightarrow> real \<times> real" where
  "rectCenter r = (rectX r + rectWidth r / 2, rectY r + rectHeight r / 2)"

datatype QTransform = QTransform (m11: real) (m12: real) (m21: real) (m22: real) (dx: real) (dy: real)

definition mapPoint :: "QTransform \<Rightarrow> real \<times> real \<Rightarrow> real \<times> real" where
  "mapPoint m p = (m11 m * fst p + m21 m * snd p + dx m, m12 m * fst p + m22 m * snd p + dy m)"

definition mapRect :: "QTransform \<Rightarrow> QRectF \<Rightarrow> QRectF" where
  "mapRect m r =
     (let corners = map (mapPoint m)
            [(rectLeft r, rectTop r), (rectRight r, rectTop r),
             (rectLeft r, rectBottom r), (rectRight r, rectBottom r)];
          xs = map fst corners; ys = map snd corners;
          xmin = foldr min (tl xs) (hd xs); xmax = foldr max (tl xs) (hd xs);
          ymin = foldr min (tl ys) (hd ys); ymax = foldr max (tl ys) (hd ys)
      in QRectF xmin ymin (xmax - xmin) (ymax - ymin))"

definition identityTransform :: QTransform where
  "identityTransform = QTransform 1 0 0 1 0 0"

text \<open>
  The renderer (\<^verbatim>\<open>QSvgRenderer\<close>) is a collaborator: what it answers for an element id
  is a parameter. A renderer is built from the text of a document; \<open>load\<close>, where it
  occurs below, stands for that construction.
\<close>

record QSvgRenderer =
  boundsOnElement :: "string \<Rightarrow> QRectF"
  transformForElement :: "string \<Rightarrow> QTransform"

text \<open>The board rectangle at the resolution \<^verbatim>\<open>res\<close> (lines 499 to 502); the two
  resolutions are constants of \<^verbatim>\<open>GraphicsUtils\<close> and are parameters here.\<close>

definition sourceResOf :: "real \<Rightarrow> real \<Rightarrow> QRectF \<Rightarrow> QRectF" where
  "sourceResOf res SVGDPI boardRect =
     QRectF (rectLeft boardRect * res / SVGDPI) (rectTop boardRect * res / SVGDPI)
            (rectWidth boardRect * res / SVGDPI) (rectHeight boardRect * res / SVGDPI)"

definition unknownMargin :: real where
  "unknownMargin = 1 / 10"

text \<open>The test of lines 542 and 580.\<close>

definition outsideBoard :: "QRectF \<Rightarrow> QRectF \<Rightarrow> bool" where
  "outsideBoard sourceRes mBounds =
     (rectLeft mBounds < rectLeft sourceRes - unknownMargin
      \<or> rectTop mBounds < rectTop sourceRes - unknownMargin
      \<or> rectRight mBounds > rectRight sourceRes + unknownMargin
      \<or> rectBottom mBounds > rectBottom sourceRes + unknownMargin)"

definition tagOf :: "nat \<Rightarrow> node \<Rightarrow> string" where
  "tagOf k doc = (case findNode k doc of None \<Rightarrow> [] | Some e \<Rightarrow> tagName e)"

text \<open>
  Lines 530 to 554. \<^verbatim>\<open>leaves1\<close> holds the handles that
  \<^verbatim>\<open>TextUtils::collectLeaves\<close> gathered, \<^verbatim>\<open>transformCount1\<close> is their number, and the
  renderer knows the leaf at index \<open>i\<close> by the id \<open>i\<close>. The state of the loop is the
  document, \<^verbatim>\<open>possibleHoles\<close> and \<^verbatim>\<open>anyClipped\<close>.
\<close>

fun clipLeaves :: "QSvgRenderer \<Rightarrow> QRectF \<Rightarrow> nat \<Rightarrow> nat list \<Rightarrow> node \<times> nat list \<times> bool
    \<Rightarrow> node \<times> nat list \<times> bool" where
  "clipLeaves renderer sourceRes i [] st = st"
| "clipLeaves renderer sourceRes i (element # rest) (doc, possibleHoles, anyClipped) =
     (let n = showNat i;
          bounds = boundsOnElement renderer n;
          m = transformForElement renderer n;
          mBounds = mapRect m bounds
      in if outsideBoard sourceRes mBounds
         then clipLeaves renderer sourceRes (Suc i) rest
                (setTagName element ''g'' doc,
                 (if tagOf element doc = ''circle'' then possibleHoles @ [element] else possibleHoles),
                 True)
         else clipLeaves renderer sourceRes (Suc i) rest (doc, possibleHoles, anyClipped))"

definition clipPhaseA :: "ForWhy \<Rightarrow> QSvgRenderer \<Rightarrow> QRectF \<Rightarrow> nat list \<Rightarrow> node \<Rightarrow> node \<times> nat list \<times> bool" where
  "clipPhaseA forWhy renderer sourceRes leaves1 doc =
     (if forWhy \<noteq> ForOutline then clipLeaves renderer sourceRes 0 leaves1 (doc, [], False)
      else (doc, [], False))"

section \<open>Clipping to the board: holes on the edge of the board\<close>

text \<open>
  Lines 557 to 593. Every possible hole is by now squashed. The first loop gives each a
  clone (\<^verbatim>\<open>cloneNode(false)\<close>: the tag and the attributes, no children) placed after it,
  with the id \<^verbatim>\<open>__ix__\<close>, stroke width 0 and the radius reduced by half the stroke
  width. The state is the document and \<^verbatim>\<open>newHoles\<close>.
\<close>

definition holeId :: "nat \<Rightarrow> string" where
  "holeId ix = ''__'' @ showNat ix @ ''__''"

definition attributeOf :: "nat \<Rightarrow> node \<Rightarrow> string \<Rightarrow> string" where
  "attributeOf k doc name = (case findNode k doc of None \<Rightarrow> [] | Some e \<Rightarrow> attribute e name)"

fun insertHoleClones :: "(string \<Rightarrow> real) \<Rightarrow> (real \<Rightarrow> string) \<Rightarrow> nat \<Rightarrow> nat list \<Rightarrow> node \<times> nat list
    \<Rightarrow> node \<times> nat list" where
  "insertHoleClones toDouble number ix [] st = st"
| "insertHoleClones toDouble number ix (element # rest) (doc, newHoles) =
     (let newElement = freshKey doc;
          clone = (case findNode element doc of
                     None \<Rightarrow> Elem newElement [] [] []
                   | Some e \<Rightarrow> Elem newElement (tagName e) (attrs e) []);
          radius = toDouble (attributeOf element doc ''r'');
          sw = toDouble (attributeOf element doc ''stroke-width'');
          doc1 = insertAfter clone element doc;
          doc2 = setAttribute newElement ''id'' (holeId ix) doc1;
          doc3 = setAttribute newElement ''stroke-width'' ''0'' doc2;
          doc4 = setAttribute newElement ''r'' (number (radius - sw / 2)) doc3;
          doc5 = setTagName newElement ''circle'' doc4
      in insertHoleClones toDouble number (Suc ix) rest (doc5, newHoles @ [newElement]))"

text \<open>\<^verbatim>\<open>newHoles.removeAt(i)\<close>\<close>

definition removeAt :: "nat \<Rightarrow> 'a list \<Rightarrow> 'a list" where
  "removeAt i xs = take i xs @ drop (Suc i) xs"

text \<open>The second loop, from the last clone down to the first: \<open>retestHoles \<dots> i\<close> treats
  the indices below \<open>i\<close>. A clone that still lies beyond the board is removed; one that
  fits is enlarged.\<close>

fun retestHoles :: "QSvgRenderer \<Rightarrow> QRectF \<Rightarrow> (string \<Rightarrow> real) \<Rightarrow> (real \<Rightarrow> string) \<Rightarrow> nat \<Rightarrow> node \<times> nat list
    \<Rightarrow> node \<times> nat list" where
  "retestHoles renderer sourceRes toDouble number 0 st = st"
| "retestHoles renderer sourceRes toDouble number (Suc i) (doc, newHoles) =
     (let ident = holeId i;
          bounds = boundsOnElement renderer ident;
          m = transformForElement renderer ident;
          newElement = newHoles ! i;
          mBounds = mapRect m bounds
      in if outsideBoard sourceRes mBounds
         then retestHoles renderer sourceRes toDouble number i
                (removeChild newElement doc, removeAt i newHoles)
         else
           let radius = toDouble (attributeOf newElement doc ''r'') + 4;
               doc1 = setAttribute newElement ''r'' (number radius) doc;
               doc2 = setAttribute newElement ''stroke-width'' ''2'' doc1
           in retestHoles renderer sourceRes toDouble number i (doc2, newHoles))"

definition keepEdgeHoles :: "(node \<Rightarrow> QSvgRenderer) \<Rightarrow> QRectF \<Rightarrow> (string \<Rightarrow> real) \<Rightarrow> (real \<Rightarrow> string) \<Rightarrow> nat list
    \<Rightarrow> node \<Rightarrow> node \<times> nat list" where
  "keepEdgeHoles load sourceRes toDouble number possibleHoles doc =
     (if length possibleHoles > 0
      then
        let (doc1, newHoles) = insertHoleClones toDouble number 0 possibleHoles (doc, []);
            renderer = load doc1
        in retestHoles renderer sourceRes toDouble number (length newHoles) (doc1, newHoles)
      else (doc, []))"

text \<open>The bounds test and the treatment of the holes in sequence (lines 528 to 593). The
  renderer of the bounds test is built from the document before the test; the result is
  the document and \<^verbatim>\<open>anyClipped\<close>.\<close>

definition clipBoundsAndHoles :: "(node \<Rightarrow> QSvgRenderer) \<Rightarrow> QRectF \<Rightarrow> (string \<Rightarrow> real) \<Rightarrow> (real \<Rightarrow> string)
    \<Rightarrow> ForWhy \<Rightarrow> nat list \<Rightarrow> node \<Rightarrow> node \<times> bool" where
  "clipBoundsAndHoles load sourceRes toDouble number forWhy leaves1 doc =
     (let renderer = load doc;
          (doc1, possibleHoles, anyClipped) = clipPhaseA forWhy renderer sourceRes leaves1 doc;
          (doc2, newHoles) = keepEdgeHoles load sourceRes toDouble number possibleHoles doc1
      in (doc2, anyClipped))"

text \<open>
  For evaluating examples: a renderer that knows circles. The bounds of the element with
  a given id are those of a circle with the element's center and radius, widened by half
  its stroke width on every side, and the transform is the identity.
\<close>

definition circleBounds :: "node \<Rightarrow> QRectF" where
  "circleBounds e =
     (let cx = toDoubleDec (attribute e ''cx'');
          cy = toDoubleDec (attribute e ''cy'');
          r = toDoubleDec (attribute e ''r'');
          sw = toDoubleDec (attribute e ''stroke-width'')
      in QRectF (cx - r - sw / 2) (cy - r - sw / 2) (2 * r + sw) (2 * r + sw))"

definition circleRenderer :: "node \<Rightarrow> QSvgRenderer" where
  "circleRenderer doc =
     \<lparr>boundsOnElement =
        (\<lambda>n. case List.find (\<lambda>e. attribute e ''id'' = n) (descendants doc) of
                Some e \<Rightarrow> circleBounds e
              | None \<Rightarrow> QRectF 0 0 0 0),
      transformForElement = (\<lambda>n. identityTransform)\<rparr>"

section \<open>The raster fallback: rendering until an image repeats\<close>

text \<open>
  Lines 708 to 743. A monochrome image is a list of pixel rows. The renderer does not
  always produce the same pixels, so \<open>render i\<close> is the inverted image that the pass of
  the loop with \<^verbatim>\<open>counter = i\<close> rendered; \<open>imageToHash\<close> is the digest of the encoded
  image. \<^verbatim>\<open>hashMap\<close> maps a digest to the image stored under it. The loop yields the last
  digest, the map and the number of images rendered.
\<close>

type_synonym QImage = "bool list list"

function renderLoop :: "(nat \<Rightarrow> QImage) \<Rightarrow> (QImage \<Rightarrow> string) \<Rightarrow> (string \<rightharpoonup> QImage) \<Rightarrow> nat
    \<Rightarrow> string \<times> (string \<rightharpoonup> QImage) \<times> nat" where
  "renderLoop render imageToHash hashMap counter =
     (let tempImage = render counter;
          hash = imageToHash tempImage
      in if hashMap hash \<noteq> None then (hash, hashMap, Suc counter)
         else let hashMap' = hashMap(hash \<mapsto> tempImage)
              in if counter \<ge> 5 then (hash, hashMap', Suc counter)
                 else renderLoop render imageToHash hashMap' (counter + 1))"
  by pat_completeness auto
termination
  by (relation "measure (\<lambda>(render, imageToHash, hashMap, counter). 5 - counter)") auto

declare renderLoop.simps [simp del]

text \<open>\<^verbatim>\<open>image = hashMap.value(hash)\<close>: the stored image, or a null image.\<close>

definition renderUntilRepeat :: "(nat \<Rightarrow> QImage) \<Rightarrow> (QImage \<Rightarrow> string) \<Rightarrow> QImage \<times> nat" where
  "renderUntilRepeat render imageToHash =
     (let (hash, hashMap, renders) = renderLoop render imageToHash Map.empty 0
      in (case hashMap hash of Some stored \<Rightarrow> stored | None \<Rightarrow> [], renders))"

text \<open>The digest of render \<open>i\<close> was already seen at an earlier render.\<close>

definition seenBefore :: "(nat \<Rightarrow> QImage) \<Rightarrow> (QImage \<Rightarrow> string) \<Rightarrow> nat \<Rightarrow> bool" where
  "seenBefore render imageToHash i = (\<exists>j<i. imageToHash (render j) = imageToHash (render i))"

section \<open>The layer pipeline\<close>

text \<open>
  \<^verbatim>\<open>exportToGerber\<close> and the functions it calls for one layer each. What the export does
  to the outside is kept as a list of events: a call of the sketch's renderer for a list
  of layers, a message shown (in a box, or in the debug log when message boxes are off),
  and a file written with its text.
\<close>

datatype ViewLayerID =
  Board | Copper0 | Copper0Trace | Copper1 | Copper1Trace
  | Silkscreen0 | Silkscreen0Label | Silkscreen1 | Silkscreen1Label
  | Mask0 | Mask1 | PasteMask0 | PasteMask1 | Drill

datatype ViewLayerPlacement = NewTop | NewBottom

type_synonym LayerList = "ViewLayerID list"

type_synonym ItemBase = nat

record ConnectorItem =
  attachedToID :: int
  isPath :: bool
  radius :: real
  strokeWidth :: real
  svgId :: string

text \<open>\<^verbatim>\<open>QMultiHash<long, ConnectorItem *>\<close>: the entries, the most recently inserted first.\<close>

type_synonym TreatAsCircle = "(int \<times> ConnectorItem) list"

datatype event =
  Render LayerList
  | MessageBox string
  | DebugLine string
  | FileWritten string string

text \<open>
  The collaborators of the pipeline, none of them in the files at hand: the sketch widget
  (\<open>renderToSVG\<close> is given whether the copper logo items and the holes are hidden at
  the time, the board and the layers, and yields the text and the \<^verbatim>\<open>empty\<close> flag), the
  layer lists of \<^verbatim>\<open>ViewLayer\<close>, the text utilities, the converter \<^verbatim>\<open>SVG2gerber\<close>
  (invalid count and Gerber text) and the file system. \<open>clipToBoardText\<close> and
  \<open>cleanOutlineText\<close> stand for \<^verbatim>\<open>clipToBoard\<close> and \<^verbatim>\<open>cleanOutline\<close> as functions on
  the text of a document, the former together with the messages it displays; the sections on clipping
  model what \<^verbatim>\<open>clipToBoard\<close> does to the parsed document.
\<close>

record Collaborators =
  findSelectedBoard :: "ItemBase option \<times> nat"
  boardLayers :: nat
  renderToSVG :: "bool \<Rightarrow> bool \<Rightarrow> ItemBase \<Rightarrow> LayerList \<Rightarrow> string \<times> bool"
  collidingConnectorItems :: "ItemBase \<Rightarrow> ConnectorItem list"
  makePasteMask :: "string \<Rightarrow> ItemBase \<Rightarrow> real \<Rightarrow> LayerList \<Rightarrow> string"
  copperLayers :: "ViewLayerPlacement \<Rightarrow> LayerList"
  maskLayers :: "ViewLayerPlacement \<Rightarrow> LayerList"
  silkLayers :: "ViewLayerPlacement \<Rightarrow> LayerList"
  outlineLayers :: LayerList
  drillLayers :: LayerList
  StandardFritzingDPI :: real
  expandAndFill :: "string \<Rightarrow> string \<Rightarrow> real \<Rightarrow> string"
  parseForWidthAndHeight :: "string \<Rightarrow> real \<times> real"
  gerberConvert :: "string \<Rightarrow> bool \<Rightarrow> string \<Rightarrow> ForWhy \<Rightarrow> real \<times> real \<Rightarrow> int \<times> string"
  canOpen :: "string \<Rightarrow> bool"
  clipToBoardText :: "string \<Rightarrow> ItemBase \<Rightarrow> string \<Rightarrow> ForWhy \<Rightarrow> string
      \<Rightarrow> TreatAsCircle \<Rightarrow> string \<times> string list"
  cleanOutlineText :: "string \<Rightarrow> string"
  pickAndPlaceText :: "string \<Rightarrow> ItemBase \<Rightarrow> string"

definition SilkTopSuffix :: string where "SilkTopSuffix = ''_silkTop.gto''"
definition SilkBottomSuffix :: string where "SilkBottomSuffix = ''_silkBottom.gbo''"
definition CopperTopSuffix :: string where "CopperTopSuffix = ''_copperTop.gtl''"
definition CopperBottomSuffix :: string where "CopperBottomSuffix = ''_copperBottom.gbl''"
definition MaskTopSuffix :: string where "MaskTopSuffix = ''_maskTop.gts''"
definition MaskBottomSuffix :: string where "MaskBottomSuffix = ''_maskBottom.gbs''"
definition PasteMaskTopSuffix :: string where "PasteMaskTopSuffix = ''_pasteMaskTop.gtp''"
definition PasteMaskBottomSuffix :: string where "PasteMaskBottomSuffix = ''_pasteMaskBottom.gbp''"
definition DrillSuffix :: string where "DrillSuffix = ''_drill.txt''"
definition OutlineSuffix :: string where "OutlineSuffix = ''_contour.gm1''"
definition PickAndPlaceSuffix :: string where "PickAndPlaceSuffix = ''_pnp.xy''"

definition MaskClearanceMils :: real where "MaskClearanceMils = 5"

definition displayMessage :: "string \<Rightarrow> bool \<Rightarrow> event list" where
  "displayMessage message displayMessageBoxes =
     (if displayMessageBoxes then [MessageBox message] else [DebugLine message])"

definition displayMessages :: "string list \<Rightarrow> bool \<Rightarrow> event list" where
  "displayMessages messages displayMessageBoxes =
     concat (map (\<lambda>message. displayMessage message displayMessageBoxes) messages)"

text \<open>\<^verbatim>\<open>clipToBoard\<close> as the pipeline calls it: the clipped text and the events of the
  messages it displayed.\<close>

definition clipToBoard :: "Collaborators \<Rightarrow> string \<Rightarrow> ItemBase \<Rightarrow> string \<Rightarrow> ForWhy \<Rightarrow> string \<Rightarrow> bool
    \<Rightarrow> TreatAsCircle \<Rightarrow> string \<times> event list" where
  "clipToBoard env svgString board layerName forWhy clipString displayMessageBoxes treatAsCircle =
     (let (svg, messages) = clipToBoardText env svgString board layerName forWhy clipString treatAsCircle
      in (svg, displayMessages messages displayMessageBoxes))"

definition renderTo :: "Collaborators \<Rightarrow> bool \<Rightarrow> bool \<Rightarrow> LayerList \<Rightarrow> ItemBase
    \<Rightarrow> (string \<times> bool) \<times> event list" where
  "renderTo env logosHidden holesHidden layers board =
     (renderToSVG env logosHidden holesHidden board layers, [Render layers])"

definition saveEnd :: "Collaborators \<Rightarrow> string \<Rightarrow> string \<Rightarrow> string \<Rightarrow> string \<Rightarrow> bool \<Rightarrow> string
    \<Rightarrow> bool \<times> event list" where
  "saveEnd env layerName exportDir prefix suffix displayMessageBoxes gerber =
     (let outname = exportDir @ ''/'' @ prefix @ suffix
      in if \<not> canOpen env outname
         then (False, displayMessage (layerName @ '' layer: unable to save to '' @ [CHR 0x27] @ outname @ [CHR 0x27])
                        displayMessageBoxes)
         else (True, [FileWritten outname gerber]))"

definition doEnd :: "Collaborators \<Rightarrow> string \<Rightarrow> nat \<Rightarrow> string \<Rightarrow> ForWhy \<Rightarrow> real \<times> real
    \<Rightarrow> string \<Rightarrow> string \<Rightarrow> string \<Rightarrow> bool \<Rightarrow> int \<times> event list" where
  "doEnd env svg boardLayers' layerName forWhy svgSize exportDir prefix suffix displayMessageBoxes =
     (let (invalidCount, gerber) = gerberConvert env svg (boardLayers' = 2) layerName forWhy svgSize
      in (invalidCount, snd (saveEnd env layerName exportDir prefix suffix displayMessageBoxes gerber)))"

definition scaledSize :: "real \<times> real \<Rightarrow> real \<Rightarrow> real \<times> real" where
  "scaledSize svgSize f = (fst svgSize * f, snd svgSize * f)"

text \<open>The loop that fills \<^verbatim>\<open>treatAsCircle\<close> in \<^verbatim>\<open>doCopper\<close> and \<^verbatim>\<open>doDrill\<close>.\<close>

definition collectTreatAsCircle :: "ConnectorItem list \<Rightarrow> TreatAsCircle" where
  "collectTreatAsCircle items =
     fold (\<lambda>connectorItem treatAsCircle.
             if \<not> isPath connectorItem then treatAsCircle
             else if radius connectorItem = 0 then treatAsCircle
             else (attachedToID connectorItem, connectorItem) # treatAsCircle)
       items []"

definition doCopper :: "Collaborators \<Rightarrow> ItemBase \<Rightarrow> LayerList \<Rightarrow> string \<Rightarrow> string \<Rightarrow> string \<Rightarrow> string
    \<Rightarrow> bool \<Rightarrow> int \<times> event list" where
  "doCopper env board viewLayerIDs copperName copperSuffix filename exportDir displayMessageBoxes =
     (let ((svg, empty), e1) = renderTo env False False viewLayerIDs board
      in if empty \<or> svg = []
         then (0, e1 @ displayMessage (copperName @ '' layer export is empty.'') displayMessageBoxes)
         else
           let treatAsCircle = collectTreatAsCircle (collidingConnectorItems env board);
               svgSize = parseForWidthAndHeight env svg;
               (svg', e2) = clipToBoard env svg board copperName ForCopper [] displayMessageBoxes treatAsCircle
           in if svg' = []
              then (0, e1 @ e2 @ displayMessage (copperName @ '' layer export is empty (case 2).'') displayMessageBoxes)
              else
                let (n, e3) = doEnd env svg' (boardLayers env) copperName ForCopper
                                (scaledSize svgSize (StandardFritzingDPI env)) exportDir filename copperSuffix
                                displayMessageBoxes
                in (n, e1 @ e2 @ e3))"

definition doSilk :: "Collaborators \<Rightarrow> LayerList \<Rightarrow> string \<Rightarrow> string \<Rightarrow> ItemBase \<Rightarrow> string \<Rightarrow> string
    \<Rightarrow> bool \<Rightarrow> string \<Rightarrow> int \<times> event list" where
  "doSilk env silkLayerIDs silkName gerberSuffix board filename exportDir displayMessageBoxes clipString =
     (let ((svgSilk, empty), e1) = renderTo env False False silkLayerIDs board
      in if empty \<or> svgSilk = []
         then (0, e1 @ (if Silkscreen1 \<in> set silkLayerIDs
                        then displayMessage (''silk layer '' @ silkName @ '' export is empty'') displayMessageBoxes
                        else []))
         else
           let svgSize = parseForWidthAndHeight env svgSilk;
               (svgSilk', e2) = clipToBoard env svgSilk board silkName ForSilk clipString displayMessageBoxes []
           in if svgSilk' = []
              then (0, e1 @ e2 @ displayMessage ''silk export failure'' displayMessageBoxes)
              else
                let (n, e3) = doEnd env svgSilk' (boardLayers env) silkName ForSilk
                                (scaledSize svgSize (StandardFritzingDPI env)) exportDir filename gerberSuffix
                                displayMessageBoxes
                in (n, e1 @ e2 @ e3))"

definition doDrill :: "Collaborators \<Rightarrow> ItemBase \<Rightarrow> string \<Rightarrow> string \<Rightarrow> bool \<Rightarrow> int \<times> event list" where
  "doDrill env board filename exportDir displayMessageBoxes =
     (let drillLayerIDs = drillLayers env;
          ((svgDrill, empty), e1) = renderTo env False False drillLayerIDs board
      in if empty \<or> svgDrill = []
         then (0, e1 @ displayMessage ''exported drill file is empty'' displayMessageBoxes)
         else
           let svgSize = parseForWidthAndHeight env svgDrill;
               treatAsCircle = collectTreatAsCircle (collidingConnectorItems env board);
               (svgDrill', e2) = clipToBoard env svgDrill board ''Copper0'' ForDrill [] displayMessageBoxes treatAsCircle
           in if svgDrill' = []
              then (0, e1 @ e2 @ displayMessage ''drill export failure'' displayMessageBoxes)
              else
                let (n, e3) = doEnd env svgDrill' (boardLayers env) ''drill'' ForDrill
                                (scaledSize svgSize (StandardFritzingDPI env)) exportDir filename DrillSuffix
                                displayMessageBoxes
                in (n, e1 @ e2 @ e3))"

text \<open>\<^verbatim>\<open>doMask\<close> also yields the clip string, which stays empty on every early return.\<close>

definition doMask :: "Collaborators \<Rightarrow> LayerList \<Rightarrow> string \<Rightarrow> string \<Rightarrow> ItemBase \<Rightarrow> string \<Rightarrow> string
    \<Rightarrow> bool \<Rightarrow> string \<Rightarrow> (int \<times> event list) \<times> string" where
  "doMask env maskLayerIDs maskName gerberSuffix board filename exportDir displayMessageBoxes clipString =
     (let ((svgMask, empty), e1) = renderTo env True False maskLayerIDs board
      in if empty \<or> svgMask = []
         then ((0, e1 @ displayMessage (''exported mask layer '' @ maskName @ '' is empty'') displayMessageBoxes),
               clipString)
         else
           let svgMask1 = expandAndFill env svgMask ''black'' (MaskClearanceMils * 2)
           in if svgMask1 = []
              then ((0, e1 @ displayMessage (maskName @ '' mask export failure (2)'') displayMessageBoxes),
                    clipString)
              else
                let svgSize = parseForWidthAndHeight env svgMask1;
                    (svgMask2, e2) = clipToBoard env svgMask1 board maskName ForMask [] displayMessageBoxes []
                in if svgMask2 = []
                   then ((0, e1 @ e2 @ displayMessage ''mask export failure'' displayMessageBoxes), clipString)
                   else
                     let (n, e3) = doEnd env svgMask2 (boardLayers env) maskName ForMask
                                     (scaledSize svgSize (StandardFritzingDPI env)) exportDir filename gerberSuffix
                                     displayMessageBoxes
                     in ((n, e1 @ e2 @ e3), svgMask2))"

definition doPasteMask :: "Collaborators \<Rightarrow> LayerList \<Rightarrow> string \<Rightarrow> string \<Rightarrow> ItemBase \<Rightarrow> string \<Rightarrow> string
    \<Rightarrow> bool \<Rightarrow> int \<times> event list" where
  "doPasteMask env maskLayerIDs maskName gerberSuffix board filename exportDir displayMessageBoxes =
     (let ((svgMask, empty), e1) = renderTo env True True maskLayerIDs board
      in if empty \<or> svgMask = []
         then (0, e1 @ displayMessage ''exported paste mask layer is empty'' displayMessageBoxes)
         else
           let svgMask1 = makePasteMask env svgMask board (StandardFritzingDPI env) maskLayerIDs
           in if svgMask1 = [] then (0, e1)
              else
                let svgSize = parseForWidthAndHeight env svgMask1;
                    (svgMask2, e2) = clipToBoard env svgMask1 board maskName ForCopper [] displayMessageBoxes []
                in if svgMask2 = []
                   then (0, e1 @ e2 @ displayMessage ''mask export failure'' displayMessageBoxes)
                   else
                     let (n, e3) = doEnd env svgMask2 (boardLayers env) maskName ForCopper
                                     (scaledSize svgSize (StandardFritzingDPI env)) exportDir filename gerberSuffix
                                     displayMessageBoxes
                     in (n, e1 @ e2 @ e3))"

text \<open>Of \<^verbatim>\<open>exportPickAndPlace\<close> the pipeline keeps the file it opens and writes; the rows
  are the collaborator's \<open>pickAndPlaceText\<close>.\<close>

definition exportPickAndPlace :: "Collaborators \<Rightarrow> string \<Rightarrow> string \<Rightarrow> ItemBase \<Rightarrow> bool \<Rightarrow> event list" where
  "exportPickAndPlace env prefix exportDir board displayMessageBoxes =
     (let outname = exportDir @ ''/'' @ prefix @ PickAndPlaceSuffix
      in if \<not> canOpen env outname
         then displayMessage (''Unable to save pick and place file: '' @ outname) displayMessageBoxes
         else [FileWritten outname (pickAndPlaceText env prefix board)])"

text \<open>The consolidated message at the end of \<^verbatim>\<open>exportToGerber\<close> (lines 151 to 160).\<close>

definition summaryMessage :: "int \<Rightarrow> int \<Rightarrow> int \<Rightarrow> int \<Rightarrow> int \<Rightarrow> bool \<Rightarrow> event list" where
  "summaryMessage outlineInvalidCount silkInvalidCount copperInvalidCount maskInvalidCount
       pasteMaskInvalidCount displayMessageBoxes =
     (if outlineInvalidCount > 0 \<or> silkInvalidCount > 0 \<or> copperInvalidCount > 0
         \<or> maskInvalidCount \<noteq> 0 \<or> pasteMaskInvalidCount \<noteq> 0
      then
        let s = (if outlineInvalidCount > 0 then ''the board outline layer, '' else [])
              @ (if silkInvalidCount > 0 then ''silkscreen layer(s), '' else [])
              @ (if copperInvalidCount > 0 then ''copper layer(s), '' else [])
              @ (if maskInvalidCount > 0 then ''mask layer(s), '' else [])
              @ (if pasteMaskInvalidCount > 0 then ''paste mask layer(s), '' else [])
        in displayMessage (''Unable to translate svg curves in '' @ take (length s - 2) s) displayMessageBoxes
      else [])"

text \<open>The outline, and after it the drill layer and the consolidated message (lines 127 to
  160). The early return on an empty outline ends the export.\<close>

definition exportOutlineAndDrill :: "Collaborators \<Rightarrow> string \<Rightarrow> string \<Rightarrow> ItemBase \<Rightarrow> bool
    \<Rightarrow> int \<Rightarrow> int \<Rightarrow> int \<Rightarrow> int \<Rightarrow> event list" where
  "exportOutlineAndDrill env prefix exportDir board displayMessageBoxes
       silkInvalidCount copperInvalidCount maskInvalidCount pasteMaskInvalidCount =
     (let ((svgOutline, empty), e1) = renderTo env False False (outlineLayers env) board
      in if empty \<or> svgOutline = []
         then e1 @ displayMessage ''outline is empty'' displayMessageBoxes
         else
           let svgOutline1 = cleanOutlineText env svgOutline;
               (svgOutline2, e2) = clipToBoard env svgOutline1 board ''board'' ForOutline [] displayMessageBoxes [];
               svgSize = parseForWidthAndHeight env svgOutline2;
               (outlineInvalidCount, gerber) =
                  gerberConvert env svgOutline2 (boardLayers env = 2) ''contour'' ForOutline
                    (scaledSize svgSize (StandardFritzingDPI env));
               e3 = snd (saveEnd env ''contour'' exportDir prefix OutlineSuffix displayMessageBoxes gerber);
               e4 = snd (doDrill env board prefix exportDir displayMessageBoxes)
           in e1 @ e2 @ e3 @ e4
              @ summaryMessage outlineInvalidCount silkInvalidCount copperInvalidCount maskInvalidCount
                  pasteMaskInvalidCount displayMessageBoxes)"

definition exportLayers :: "Collaborators \<Rightarrow> string \<Rightarrow> string \<Rightarrow> ItemBase \<Rightarrow> bool \<Rightarrow> event list" where
  "exportLayers env prefix exportDir board displayMessageBoxes =
     (let two = (boardLayers env = 2);
          pnp = exportPickAndPlace env prefix exportDir board displayMessageBoxes;
          copper0 = doCopper env board (copperLayers env NewBottom) ''Copper0'' CopperBottomSuffix prefix exportDir
                      displayMessageBoxes;
          copper1 = (if two
                     then doCopper env board (copperLayers env NewTop) ''Copper1'' CopperTopSuffix prefix exportDir
                            displayMessageBoxes
                     else (0, []));
          copperInvalidCount = fst copper0 + fst copper1;
          mask0 = doMask env (maskLayers env NewBottom) ''Mask0'' MaskBottomSuffix board prefix exportDir
                    displayMessageBoxes [];
          maskBottom = snd mask0;
          mask1 = (if two
                   then doMask env (maskLayers env NewTop) ''Mask1'' MaskTopSuffix board prefix exportDir
                          displayMessageBoxes []
                   else ((0, []), []));
          maskTop = snd mask1;
          maskInvalidCount = fst (fst mask0) + fst (fst mask1);
          paste0 = doPasteMask env (maskLayers env NewBottom) ''PasteMask0'' PasteMaskBottomSuffix board prefix
                     exportDir displayMessageBoxes;
          paste1 = (if two
                    then doPasteMask env (maskLayers env NewTop) ''PasteMask1'' PasteMaskTopSuffix board prefix
                           exportDir displayMessageBoxes
                    else (0, []));
          pasteMaskInvalidCount = fst paste0 + fst paste1;
          silk1 = doSilk env (silkLayers env NewTop) ''Silk1'' SilkTopSuffix board prefix exportDir
                    displayMessageBoxes maskTop;
          silk0 = doSilk env (silkLayers env NewBottom) ''Silk0'' SilkBottomSuffix board prefix exportDir
                    displayMessageBoxes maskBottom;
          silkInvalidCount = fst silk1 + fst silk0
      in pnp @ snd copper0 @ snd copper1 @ snd (fst mask0) @ snd (fst mask1) @ snd paste0 @ snd paste1
         @ snd silk1 @ snd silk0
         @ exportOutlineAndDrill env prefix exportDir board displayMessageBoxes
             silkInvalidCount copperInvalidCount maskInvalidCount pasteMaskInvalidCount)"

definition exportToGerber :: "Collaborators \<Rightarrow> string \<Rightarrow> string \<Rightarrow> ItemBase option \<Rightarrow> bool \<Rightarrow> event list" where
  "exportToGerber env prefix exportDir board displayMessageBoxes =
     (case board of
        Some b \<Rightarrow> exportLayers env prefix exportDir b displayMessageBoxes
      | None \<Rightarrow>
          (let (found, boardCount) = findSelectedBoard env
           in if boardCount = 0 then [DebugLine ''board not found'']
              else (case found of
                      None \<Rightarrow> [DebugLine ''multiple boards found'']
                    | Some b \<Rightarrow> exportLayers env prefix exportDir b displayMessageBoxes)))"

section \<open>Clipping to the board: donuts\<close>

text \<open>
  \<^verbatim>\<open>handleDonuts\<close>. The renderer is built from the text of the document at the time
  (\<open>load\<close>); \<^verbatim>\<open>QString::number\<close> (\<open>number\<close>) and \<^verbatim>\<open>QString::toLong\<close>
  (\<open>toLong\<close>) are the library's and are parameters, as are the two resolutions
  \<^verbatim>\<open>GraphicsUtils::StandardFritzingDPI\<close> (\<open>res\<close>) and \<^verbatim>\<open>GraphicsUtils::SVGDPI\<close>. A
  connector's \<open>svgId\<close> is the id that its \<^verbatim>\<open>fullPinInfo\<close> gives for the view.
\<close>

definition uniqueId :: string where
  "uniqueId = ''%%%%%%%%%%%%%%%%%%%%%%%%_________________________________%%%%%%%%%%%%%%%%%%%%%%%%%%%%%''"

text \<open>\<^verbatim>\<open>treatAsCircle.values(key)\<close>\<close>

definition valuesFor :: "TreatAsCircle \<Rightarrow> int \<Rightarrow> ConnectorItem list" where
  "valuesFor treatAsCircle key = map snd (filter (\<lambda>(k, c). k = key) treatAsCircle)"

text \<open>The loop over the parents of the path (lines 1123 to 1140): the first parent with a
  part id decides unless it has connectors of which none carries the id.\<close>

fun findConnector :: "(string \<Rightarrow> int) \<Rightarrow> TreatAsCircle \<Rightarrow> string \<Rightarrow> node list \<Rightarrow> ConnectorItem option" where
  "findConnector toLong treatAsCircle ident [] = None"
| "findConnector toLong treatAsCircle ident (parent # rest) =
     (let pid = attribute parent ''partID''
      in if pid = [] then findConnector toLong treatAsCircle ident rest
         else
           let connectorItems = valuesFor treatAsCircle (toLong pid)
           in if connectorItems = [] then None
              else (case List.find (\<lambda>candidate. svgId candidate = ident) connectorItems of
                      Some connectorItem \<Rightarrow> Some connectorItem
                    | None \<Rightarrow> findConnector toLong treatAsCircle ident rest))"

text \<open>The body of the loop over the path elements (lines 1114 to 1163), for the path with
  key \<open>k\<close>.\<close>

definition donutStep :: "(node \<Rightarrow> QSvgRenderer) \<Rightarrow> (real \<Rightarrow> string) \<Rightarrow> (string \<Rightarrow> int) \<Rightarrow> real \<Rightarrow> real
    \<Rightarrow> TreatAsCircle \<Rightarrow> string list \<Rightarrow> nat \<Rightarrow> node \<Rightarrow> node" where
  "donutStep load number toLong res SVGDPI treatAsCircle ids k doc =
     (case findNode k doc of
        None \<Rightarrow> doc
      | Some path \<Rightarrow>
          let ident = attribute path ''id''
          in if ident = [] then doc
             else if ident \<notin> set ids then doc
             else
               (case findConnector toLong treatAsCircle ident (tl (ancestry k doc)) of
                  None \<Rightarrow> doc
                | Some connectorItem \<Rightarrow>
                    let doc1 = setAttribute k ''id'' uniqueId doc;
                        bounds = boundsOnElement (load doc1) uniqueId;
                        doc2 = removeAttribute k ''id'' doc1;
                        circle = freshKey doc2;
                        doc3 = insertBefore (Elem circle ''circle'' [] []) k doc2;
                        doc4 = setAttribute circle ''id'' ident doc3;
                        p = rectCenter bounds;
                        doc5 = setAttribute circle ''cx'' (number (fst p)) doc4;
                        doc6 = setAttribute circle ''cy'' (number (snd p)) doc5;
                        doc7 = setAttribute circle ''r'' (number (radius connectorItem * res / SVGDPI)) doc6
                    in setAttribute circle ''stroke-width''
                         (number (strokeWidth connectorItem * res / SVGDPI)) doc7))"

text \<open>The loop inserts circle elements only, so the node list of the path elements holds
  the same elements whenever it is rebuilt.\<close>

definition handleDonuts :: "(node \<Rightarrow> QSvgRenderer) \<Rightarrow> (real \<Rightarrow> string) \<Rightarrow> (string \<Rightarrow> int) \<Rightarrow> real \<Rightarrow> real
    \<Rightarrow> node \<Rightarrow> TreatAsCircle \<Rightarrow> node" where
  "handleDonuts load number toLong res SVGDPI root1 treatAsCircle =
     (if length treatAsCircle > 0
      then
        let ids = map (\<lambda>(key, connectorItem). svgId connectorItem) treatAsCircle
        in fold (\<lambda>path doc. donutStep load number toLong res SVGDPI treatAsCircle ids (nodeKey path) doc)
             (elementsByTagName root1 ''path'') root1
      else root1)"

text \<open>\<open>toLongDec\<close> reads decimal digits, for evaluating examples.\<close>

definition toLongDec :: "string \<Rightarrow> int" where
  "toLongDec s = (case digitsVal s 0 of Some n \<Rightarrow> (if s = [] then 0 else int n) | None \<Rightarrow> 0)"

section \<open>Clipping to the board: splitting the contours of the outline\<close>

text \<open>
  \<^verbatim>\<open>d.split("z", Qt::SkipEmptyParts, Qt::CaseInsensitive)\<close>: the pieces between the
  close markers, the empty ones left out.
\<close>

definition closeMarker :: "char \<Rightarrow> bool" where
  "closeMarker c = (c = CHR ''z'' \<or> c = CHR ''Z'')"

fun pieces :: "(char \<Rightarrow> bool) \<Rightarrow> string \<Rightarrow> string list" where
  "pieces sep [] = [[]]"
| "pieces sep (c # s) =
     (if sep c then [] # pieces sep s
      else (case pieces sep s of [] \<Rightarrow> [[c]] | p # ps \<Rightarrow> (c # p) # ps))"

definition splitZ :: "string \<Rightarrow> string list" where
  "splitZ d = filter (\<lambda>p. p \<noteq> []) (pieces closeMarker d)"

text \<open>
  The first loop of \<^verbatim>\<open>dealWithMultipleContours\<close> (lines 906 to 919), over the path
  elements; it runs while \<^verbatim>\<open>contoursOK\<close> holds. The state is \<^verbatim>\<open>multipleContours\<close> and
  \<^verbatim>\<open>contoursOK\<close>. The pattern \<^verbatim>\<open>MultipleZs\<close> is a parameter.
\<close>

fun checkContours :: "(string \<Rightarrow> bool) \<Rightarrow> node list \<Rightarrow> bool \<times> bool \<Rightarrow> bool \<times> bool" where
  "checkContours MultipleZs [] st = st"
| "checkContours MultipleZs (path # rest) (multipleContours, contoursOK) =
     (if \<not> contoursOK then (multipleContours, contoursOK)
      else
        let originalPath = trimmed (attribute path ''d'')
        in if \<not> MultipleZs originalPath
           then checkContours MultipleZs rest (multipleContours, contoursOK)
           else
             let subpaths = splitZ (attribute path ''d'')
             in checkContours MultipleZs rest
                  (True, list_all (\<lambda>subpath. startsWith (trimmed subpath) ''m'' CaseInsensitive) subpaths))"

definition cutoutMessage :: string where
  "cutoutMessage =
     ''Fritzing is unable to process the cutouts in this custom PCB shape. ''
     @ ''You may need to reload the shape SVG. ''
     @ ''Fritzing requires that you make cutouts using a shape '' @ [CHR 0x27] @ ''subtraction'' @ [CHR 0x27]
     @ '' or '' @ [CHR 0x27] @ ''difference'' @ [CHR 0x27] @ '' operation in your vector graphics editor.''"

text \<open>
  The inner loop of the second part (lines 940 to 956), for one path element: the data of
  the new path elements, in the order in which they are appended. \<open>MFinder\<close> is the
  pattern of that name, a parameter: it yields the three captured groups of the first
  match (the move command and its two numbers), each empty when there is no match.
  \<open>count\<close> is \<^verbatim>\<open>subpaths.count()\<close> and \<open>i\<close> the index of the subpath at the head.
\<close>

fun contourData :: "(string \<Rightarrow> string \<times> string \<times> string) \<Rightarrow> string \<Rightarrow> nat \<Rightarrow> nat \<Rightarrow> string \<Rightarrow> string list
    \<Rightarrow> string list" where
  "contourData MFinder originalPath count i priorM [] = []"
| "contourData MFinder originalPath count i priorM (subpath # rest) =
     (let z = (if i < count - 1 \<or> endsWith originalPath ''z'' CaseInsensitive then ''z'' else []);
          d = trimmed subpath @ z;
          (c1, c2, c3) = MFinder d;
          d' = (if startsWith d ''m'' CaseSensitive then priorM @ d else d);
          priorM' = (if c1 = ''M'' then c1 @ c2 @ '','' @ c3 @ '' ''
                     else priorM @ c1 @ c2 @ '','' @ c3 @ '' '')
      in d' # contourData MFinder originalPath count (Suc i) priorM' rest)"

text \<open>\<^verbatim>\<open>path.cloneNode(true)\<close>: a copy of the subtree made of new elements; the keys of
  the copy lie above every key of the document.\<close>

fun shiftKeys :: "nat \<Rightarrow> node \<Rightarrow> node" where
  "shiftKeys off (Elem k t a cs) = Elem (k + off) t a (map (shiftKeys off) cs)"

definition cloneNode :: "node \<Rightarrow> node \<Rightarrow> node" where
  "cloneNode doc e = shiftKeys (freshKey doc) e"

text \<open>Appending the new path elements to the parent of the path, one clone of the path
  for each data string.\<close>

fun appendContours :: "node \<Rightarrow> nat \<Rightarrow> string list \<Rightarrow> node \<Rightarrow> node" where
  "appendContours path parent [] doc = doc"
| "appendContours path parent (d # ds) doc =
     (let newPath = cloneNode doc path;
          newPath' = setAttribute (nodeKey newPath) ''d'' d newPath
      in appendContours path parent ds (appendChild parent newPath' doc))"

datatype failure = IndexOutOfRange

text \<open>
  The body of the second loop (lines 933 to 958) for the path element with key \<open>k\<close>.
  \<^verbatim>\<open>subpaths.at(0)\<close> on an empty list is outside the list, which is a failure.
\<close>

definition splitPath :: "(string \<Rightarrow> bool) \<Rightarrow> (string \<Rightarrow> string \<times> string \<times> string) \<Rightarrow> nat \<Rightarrow> node
    \<Rightarrow> failure + node" where
  "splitPath MultipleZs MFinder k doc =
     (case (findNode k doc, parentNode k doc) of
        (Some path, Some parent) \<Rightarrow>
          (let originalPath = trimmed (attribute path ''d'')
           in if MultipleZs originalPath
              then
                (case splitZ (attribute path ''d'') of
                   [] \<Rightarrow> Inl IndexOutOfRange
                 | first # rest \<Rightarrow>
                     let (c1, c2, c3) = MFinder (trimmed first);
                         priorM = c1 @ c2 @ '','' @ c3 @ '' '';
                         ds = contourData MFinder originalPath (Suc (length rest)) 1 priorM rest;
                         doc' = appendContours path (nodeKey parent) ds doc
                     in Inr (setAttribute k ''d'' (first @ ''z'') doc'))
              else Inr doc)
      | _ \<Rightarrow> Inr doc)"

text \<open>
  The second loop. The node list is live: appending an element rebuilds it, so the loop
  also visits the path elements it has appended, and its bound is the current number of
  path elements. The loop need not end for every pattern, so its result is optional:
  \<open>None\<close> stands for a loop that does not end.
\<close>

partial_function (option) splitLoop :: "(string \<Rightarrow> bool) \<Rightarrow> (string \<Rightarrow> string \<times> string \<times> string) \<Rightarrow> nat
    \<Rightarrow> node \<Rightarrow> (failure + node) option" where
  "splitLoop MultipleZs MFinder p root1 =
     (let paths = elementsByTagName root1 ''path''
      in if p < length paths
         then (case splitPath MultipleZs MFinder (nodeKey (paths ! p)) root1 of
                 Inl e \<Rightarrow> Some (Inl e)
               | Inr root2 \<Rightarrow> splitLoop MultipleZs MFinder (Suc p) root2)
         else Some (Inr root1))"

declare splitLoop.simps [code]

text \<open>\<^verbatim>\<open>dealWithMultipleContours\<close>: the value returned, the document and the messages
  displayed.\<close>

definition dealWithMultipleContours :: "(string \<Rightarrow> bool) \<Rightarrow> (string \<Rightarrow> string \<times> string \<times> string) \<Rightarrow> node
    \<Rightarrow> bool \<Rightarrow> (failure + bool \<times> node \<times> event list) option" where
  "dealWithMultipleContours MultipleZs MFinder root1 displayMessageBoxes =
     (let paths = elementsByTagName root1 ''path'';
          (multipleContours, contoursOK) = checkContours MultipleZs paths (False, True)
      in if \<not> multipleContours then Some (Inr (False, root1, []))
         else if \<not> contoursOK
         then Some (Inr (False, root1, displayMessage cutoutMessage displayMessageBoxes))
         else (case splitLoop MultipleZs MFinder 0 root1 of
                 None \<Rightarrow> None
               | Some (Inl e) \<Rightarrow> Some (Inl e)
               | Some (Inr root2) \<Rightarrow> Some (Inr (True, root2, []))))"

text \<open>
  Modelled from the spec: the pattern \<^verbatim>\<open>MFinder\<close> of \<^verbatim>\<open>svgpathregex.h\<close>, for
  evaluating examples. By the spec the splitting tracks "the most recent move command's
  coordinates": \<open>moveFinder\<close> yields the first move command of the data and the two
  numbers that follow it.
\<close>

definition numberChar :: "char \<Rightarrow> bool" where
  "numberChar c = (c \<in> set ''0123456789.+-'')"

fun moveFinder :: "string \<Rightarrow> string \<times> string \<times> string" where
  "moveFinder [] = ([], [], [])"
| "moveFinder (c # s) =
     (if c = CHR ''m'' \<or> c = CHR ''M''
      then
        let s1 = dropWhile isSpace s;
            x = takeWhile numberChar s1;
            s2 = dropWhile (\<lambda>c. isSpace c \<or> c = CHR '','') (dropWhile numberChar s1);
            y = takeWhile numberChar s2
        in ([c], x, y)
      else moveFinder s)"

text \<open>
  The vocabulary of the claims about the pipeline: the layers in the order of export, for
  each its layer list, what the sketch renderCalls for it (with the items hidden that the
  source hides for that layer), its file suffix and the text of its empty-layer message;
  and the projections of the event list on the renderer calls and on the files written.
\<close>

datatype layerKind =
  CopperBottom | CopperTop | MaskBottom | MaskTop | PasteMaskBottom | PasteMaskTop
  | SilkTop | SilkBottom | Outline | DrillLayer

fun layerList :: "Collaborators \<Rightarrow> layerKind \<Rightarrow> LayerList" where
  "layerList env CopperBottom = copperLayers env NewBottom"
| "layerList env CopperTop = copperLayers env NewTop"
| "layerList env MaskBottom = maskLayers env NewBottom"
| "layerList env MaskTop = maskLayers env NewTop"
| "layerList env PasteMaskBottom = maskLayers env NewBottom"
| "layerList env PasteMaskTop = maskLayers env NewTop"
| "layerList env SilkTop = silkLayers env NewTop"
| "layerList env SilkBottom = silkLayers env NewBottom"
| "layerList env Outline = outlineLayers env"
| "layerList env DrillLayer = drillLayers env"

fun layerRendering :: "Collaborators \<Rightarrow> ItemBase \<Rightarrow> layerKind \<Rightarrow> string \<times> bool" where
  "layerRendering env board MaskBottom = renderToSVG env True False board (maskLayers env NewBottom)"
| "layerRendering env board MaskTop = renderToSVG env True False board (maskLayers env NewTop)"
| "layerRendering env board PasteMaskBottom = renderToSVG env True True board (maskLayers env NewBottom)"
| "layerRendering env board PasteMaskTop = renderToSVG env True True board (maskLayers env NewTop)"
| "layerRendering env board k = renderToSVG env False False board (layerList env k)"

definition nothingRendered :: "Collaborators \<Rightarrow> ItemBase \<Rightarrow> layerKind \<Rightarrow> bool" where
  "nothingRendered env board k = (snd (layerRendering env board k) \<or> fst (layerRendering env board k) = [])"

fun layerSuffix :: "layerKind \<Rightarrow> string" where
  "layerSuffix CopperBottom = CopperBottomSuffix"
| "layerSuffix CopperTop = CopperTopSuffix"
| "layerSuffix MaskBottom = MaskBottomSuffix"
| "layerSuffix MaskTop = MaskTopSuffix"
| "layerSuffix PasteMaskBottom = PasteMaskBottomSuffix"
| "layerSuffix PasteMaskTop = PasteMaskTopSuffix"
| "layerSuffix SilkTop = SilkTopSuffix"
| "layerSuffix SilkBottom = SilkBottomSuffix"
| "layerSuffix Outline = OutlineSuffix"
| "layerSuffix DrillLayer = DrillSuffix"

fun emptyDiagnostic :: "layerKind \<Rightarrow> string" where
  "emptyDiagnostic CopperBottom = ''Copper0 layer export is empty.''"
| "emptyDiagnostic CopperTop = ''Copper1 layer export is empty.''"
| "emptyDiagnostic MaskBottom = ''exported mask layer Mask0 is empty''"
| "emptyDiagnostic MaskTop = ''exported mask layer Mask1 is empty''"
| "emptyDiagnostic PasteMaskBottom = ''exported paste mask layer is empty''"
| "emptyDiagnostic PasteMaskTop = ''exported paste mask layer is empty''"
| "emptyDiagnostic SilkTop = ''silk layer Silk1 export is empty''"
| "emptyDiagnostic SilkBottom = ''silk layer Silk0 export is empty''"
| "emptyDiagnostic Outline = ''outline is empty''"
| "emptyDiagnostic DrillLayer = ''exported drill file is empty''"

definition layersThroughOutline :: "Collaborators \<Rightarrow> layerKind list" where
  "layersThroughOutline env =
     (if boardLayers env = 2
      then [CopperBottom, CopperTop, MaskBottom, MaskTop, PasteMaskBottom, PasteMaskTop, SilkTop, SilkBottom, Outline]
      else [CopperBottom, MaskBottom, PasteMaskBottom, SilkTop, SilkBottom, Outline])"

definition renderCalls :: "event list \<Rightarrow> LayerList list" where
  "renderCalls tr = concat (map (\<lambda>e. case e of Render ls \<Rightarrow> [ls] | _ \<Rightarrow> []) tr)"

definition filesWritten :: "event list \<Rightarrow> string list" where
  "filesWritten tr = concat (map (\<lambda>e. case e of FileWritten f c \<Rightarrow> [f] | _ \<Rightarrow> []) tr)"

definition renderedLayers :: "Collaborators \<Rightarrow> ItemBase \<Rightarrow> layerKind list" where
  "renderedLayers env board =
     layersThroughOutline env @ (if nothingRendered env board Outline then [] else [DrillLayer])"

text \<open>
  Modelled from the spec: the patterns \<^verbatim>\<open>AaCc\<close> and \<^verbatim>\<open>MultipleZs\<close> of
  \<^verbatim>\<open>svgpathregex.h\<close>, for evaluating examples. By the spec a path is squashed when its
  data "contains a curve command", and when it "contains multiple closed-contour markers".
  \<open>scaleTransform\<close> is an instance of \<open>isScaling\<close> for transform strings of the form
  \<^verbatim>\<open>scale(...)\<close>.
\<close>

definition curveCommand :: "string \<Rightarrow> bool" where
  "curveCommand d = list_ex (\<lambda>c. c \<in> set ''aAcCqQtTsS'') d"

definition multipleMarkers :: "string \<Rightarrow> bool" where
  "multipleMarkers d = (2 \<le> length (filter closeMarker d))"

definition scaleTransform :: "string \<Rightarrow> bool" where
  "scaleTransform s = startsWith s ''scale('' CaseSensitive"

section \<open>Example documents\<close>

definition safeDoc :: node where
  "safeDoc =
     Elem 0 ''svg'' [(''width'', ''1in''), (''height'', ''1in'')]
       [Elem 1 ''g'' [(''transform'', ''translate(3,4)'')]
          [Elem 2 ''rect'' [(''x'', ''0''), (''y'', ''0''), (''width'', ''10''), (''height'', ''5'')] [],
           Elem 3 ''circle'' [(''cx'', ''5''), (''cy'', ''5''), (''r'', ''2''), (''stroke-dasharray'', ''none'')] [],
           Elem 4 ''path'' [(''d'', ''M0,0 L10,0 L10,10 z'')] []],
        Elem 5 ''line'' [(''x1'', ''0''), (''y1'', ''0''), (''x2'', ''9''), (''y2'', ''9'')] []]"

definition roundedDoc :: node where
  "roundedDoc =
     Elem 0 ''svg'' []
       [Elem 1 ''rect'' [(''width'', ''10''), (''height'', ''5''), (''rx'', ''1'')] [],
        Elem 2 ''rect'' [(''width'', ''10''), (''height'', ''5'')] [],
        Elem 3 ''g'' [(''transform'', ''scale(2)'')] [Elem 4 ''path'' [(''d'', ''M0,0 L1,1'')] []]]"

definition holesDoc :: node where
  "holesDoc =
     Elem 0 ''svg'' []
       [Elem 1 ''g'' [(''partID'', ''57'')]
          [Elem 2 ''circle'' [(''id'', ''nonconn0''), (''r'', ''10''), (''stroke-width'', ''0'')] [],
           Elem 3 ''circle'' [(''id'', ''connector0pin''), (''r'', ''10''), (''stroke-width'', ''0'')] [],
           Elem 4 ''circle'' [(''id'', ''nonconn1''), (''r'', ''10''), (''stroke-width'', ''2'')] [],
           Elem 5 ''circle'' [(''id'', ''nonconn2''), (''r'', ''10'')] []]]"

definition edgeDoc :: node where
  "edgeDoc =
     Elem 0 ''svg'' []
       [Elem 2 ''rect'' [(''id'', ''0'')] [],
        Elem 3 ''rect'' [(''id'', ''1'')] [],
        Elem 4 ''circle'' [(''id'', ''2'')] []]"

definition edgeRenderer :: QSvgRenderer where
  "edgeRenderer =
     \<lparr>boundsOnElement = (\<lambda>n. case map_of [(''0'', QRectF (- 1 / 10) 0 10 10),
                                               (''1'', QRectF (- 3 / 10) 0 10 10),
                                               (''2'', QRectF 20 20 10 10)] n of
                                  Some r \<Rightarrow> r | None \<Rightarrow> QRectF 0 0 0 0),
      transformForElement = (\<lambda>n. identityTransform)\<rparr>"

definition flickerRender :: "nat \<Rightarrow> QImage" where
  "flickerRender i = (if i = 1 then [[True, False]] else [[True, True]])"

definition countingRender :: "nat \<Rightarrow> QImage" where
  "countingRender i = [replicate i True]"

definition rowHash :: "QImage \<Rightarrow> string" where
  "rowHash img = concat (map (map (\<lambda>b. if b then CHR ''1'' else CHR ''0'')) img)"

text \<open>Two boards for the pipeline: on the first nothing is rendered for the two silk
  layers, on the second nothing is rendered for the outline. The layer lists are those of
  a two-layer board.\<close>

definition noSilkEnv :: Collaborators where
  "noSilkEnv =
     \<lparr>findSelectedBoard = (Some 0, 1),
      boardLayers = 2,
      renderToSVG = (\<lambda>logosHidden holesHidden board layers.
         if Silkscreen0 \<in> set layers \<or> Silkscreen1 \<in> set layers then ([], True) else (''<svg/>'', False)),
      collidingConnectorItems = (\<lambda>board. []),
      makePasteMask = (\<lambda>svg board dpi layers. svg),
      copperLayers = (\<lambda>side. case side of NewTop \<Rightarrow> [Copper1, Copper1Trace] | NewBottom \<Rightarrow> [Copper0, Copper0Trace]),
      maskLayers = (\<lambda>side. case side of NewTop \<Rightarrow> [Mask1] | NewBottom \<Rightarrow> [Mask0]),
      silkLayers = (\<lambda>side. case side of NewTop \<Rightarrow> [Silkscreen1, Silkscreen1Label]
                                   | NewBottom \<Rightarrow> [Silkscreen0, Silkscreen0Label]),
      outlineLayers = [Board],
      drillLayers = [Drill],
      StandardFritzingDPI = 1000,
      expandAndFill = (\<lambda>svg color amount. svg),
      parseForWidthAndHeight = (\<lambda>svg. (1, 1)),
      gerberConvert = (\<lambda>svg two layerName forWhy svgSize. (0, ''G04*'')),
      canOpen = (\<lambda>name. True),
      clipToBoardText = (\<lambda>svg board layerName forWhy clipString treatAsCircle. (svg, [])),
      cleanOutlineText = (\<lambda>svg. svg),
      pickAndPlaceText = (\<lambda>prefix board. ''RefDes'')\<rparr>"

definition noOutlineEnv :: Collaborators where
  "noOutlineEnv =
     noSilkEnv\<lparr>renderToSVG := (\<lambda>logosHidden holesHidden board layers.
         if Board \<in> set layers then ([], True) else (''<svg/>'', False))\<rparr>"

definition badCutoutDoc :: node where
  "badCutoutDoc =
     Elem 0 ''svg'' []
       [Elem 1 ''g'' [(''id'', ''board'')]
          [Elem 2 ''path'' [(''id'', ''boardoutline''),
                            (''d'', ''M0,0 L4,0 L4,4 z L1,1 L2,1 L2,2 z'')] []]]"

definition donutDoc :: node where
  "donutDoc =
     Elem 0 ''svg'' []
       [Elem 1 ''g'' [(''partID'', ''57'')]
          [Elem 2 ''g'' [(''id'', ''copper0'')]
             [Elem 3 ''path'' [(''id'', ''connector0pin''), (''d'', ''M0,0 a1,1 0 1 0 2,0 z'')] [],
              Elem 4 ''path'' [(''id'', ''connector1pin''), (''d'', ''M5,0 a1,1 0 1 0 2,0 z'')] []]]]"

definition donutConnector :: ConnectorItem where
  "donutConnector = \<lparr>attachedToID = 57, isPath = True, radius = 9, strokeWidth = 18, svgId = ''connector0pin''\<rparr>"

definition donutRenderer :: "node \<Rightarrow> QSvgRenderer" where
  "donutRenderer doc =
     \<lparr>boundsOnElement = (\<lambda>n. if n = uniqueId then QRectF 10 20 40 40 else QRectF 0 0 0 0),
      transformForElement = (\<lambda>n. identityTransform)\<rparr>"

text \<open>Three documents with one circle and a board of 100 by 100. The circle of
  \<^verbatim>\<open>nearEdgeDoc\<close> has radius 10 and stroke width 2 and its center 5 from the left
  edge; the circle of \<^verbatim>\<open>thickRingDoc\<close> has radius 10 and stroke width 12 and its
  center 4 from the left edge; \<^verbatim>\<open>squashedRingDoc\<close> is the latter after the bounds
  test.\<close>

definition nearEdgeDoc :: node where
  "nearEdgeDoc =
     Elem 0 ''svg'' []
       [Elem 2 ''circle'' [(''id'', ''0''), (''cx'', ''5''), (''cy'', ''50''), (''r'', ''10''), (''stroke-width'', ''2'')] []]"

definition thickRingDoc :: node where
  "thickRingDoc =
     Elem 0 ''svg'' []
       [Elem 2 ''circle'' [(''id'', ''0''), (''cx'', ''4''), (''cy'', ''50''), (''r'', ''10''), (''stroke-width'', ''12'')] []]"

definition squashedRingDoc :: node where
  "squashedRingDoc =
     Elem 0 ''svg'' []
       [Elem 2 ''g'' [(''id'', ''0''), (''cx'', ''4''), (''cy'', ''50''), (''r'', ''10''), (''stroke-width'', ''12'')] []]"

section \<open>Properties of the drill-hole step\<close>

lemma setTagName_squashKeys: "setTagName k ''g'' (squashKeys K n) = squashKeys (insert k K) n"
  unfolding setTagName_def
  by (induction K n rule: squashKeys.induct) auto

lemma squashKeys_empty: "squashKeys {} n = n"
  by (induction n) (auto simp: map_idI)

lemma fold_setTagName:
  "fold (\<lambda>c doc. setTagName (nodeKey c) ''g'' doc) ns (squashKeys K n)
   = squashKeys (K \<union> nodeKey ` set ns) n"
  by (induction ns arbitrary: K) (auto simp: setTagName_squashKeys)

lemma squashKeys_squashWhere:
  "(\<And>m. m \<in> set (allNodes n) \<Longrightarrow> (nodeKey m \<in> K) = P m) \<Longrightarrow> squashKeys K n = squashWhere P n"
proof (induction n)
  case (Elem k t a cs)
  have "squashKeys K c = squashWhere P c" if "c \<in> set cs" for c
    using Elem.IH[OF that] Elem.prems that by (auto simp: allNodes_def)
  moreover have "(k \<in> K) = P (Elem k t a cs)"
    using Elem.prems[of "Elem k t a cs"] by (simp add: allNodes_def)
  ultimately show ?case by simp
qed

lemma allNodes_child_descendants:
  "c \<in> set (childNodes n) \<Longrightarrow> set (allNodes c) \<subseteq> set (descendants n)"
  by (cases n) (auto simp: allNodes_def)

lemma squashKeys_squashBelow:
  assumes d: "distinct (keys root1)"
    and K: "K = nodeKey ` {m \<in> set (descendants root1). P m}"
  shows "squashKeys K root1 = squashBelow P root1"
proof -
  obtain k t a cs where r: "root1 = Elem k t a cs" by (cases root1)
  from d have inj: "inj_on nodeKey (set (descendants root1))"
    and nk: "k \<notin> nodeKey ` set (descendants root1)"
    by (auto simp: keys_def allNodes_def r distinct_map)
  have kK: "k \<notin> K" using nk K by auto
  have "squashKeys K c = squashWhere P c" if c: "c \<in> set cs" for c
  proof (rule squashKeys_squashWhere)
    fix m assume "m \<in> set (allNodes c)"
    then have m: "m \<in> set (descendants root1)"
      using allNodes_child_descendants[of c root1] c r by auto
    show "(nodeKey m \<in> K) = P m"
    proof
      assume "nodeKey m \<in> K"
      then obtain m' where "m' \<in> set (descendants root1)" "P m'" "nodeKey m = nodeKey m'"
        using K by auto
      with inj m show "P m" by (auto dest: inj_onD)
    next
      assume "P m" with m K show "nodeKey m \<in> K" by auto
    qed
  qed
  with kK show ?thesis by (simp add: r squashBelow_def)
qed

text \<open>
  Claim C10. When the document's elements are distinct objects and the clip is not for the
  drill layer, the first step of \<^verbatim>\<open>clipToBoard\<close> retags to \<^verbatim>\<open>g\<close> exactly the circle
  elements below the root whose id contains the non-connector marker and whose
  stroke-width converts to 0, and changes nothing else; for the drill layer it leaves the
  document as it is. The step comes first in \<^verbatim>\<open>clipToBoard\<close>, before any conversion.
\<close>

theorem squashJustHoles_spec:
  assumes "distinct (keys root1)"
  shows "squashJustHoles NonConnectorName toDouble forWhy root1 =
     (if forWhy = ForDrill then root1
      else squashBelow (\<lambda>n. tagName n = ''circle'' \<and> isJustHole NonConnectorName toDouble n) root1)"
proof (cases "forWhy = ForDrill")
  case True
  then show ?thesis by (simp add: squashJustHoles_def)
next
  case False
  let ?P = "\<lambda>n. tagName n = ''circle'' \<and> isJustHole NonConnectorName toDouble n"
  let ?hs = "filter (isJustHole NonConnectorName toDouble) (elementsByTagName root1 ''circle'')"
  have "fold (\<lambda>c doc. setTagName (nodeKey c) ''g'' doc) ?hs (squashKeys {} root1)
        = squashKeys ({} \<union> nodeKey ` set ?hs) root1"
    by (rule fold_setTagName)
  also have "\<dots> = squashBelow ?P root1"
    by (rule squashKeys_squashBelow[OF assms]) (auto simp: elementsByTagName_def)
  finally show ?thesis using False
    by (simp add: squashJustHoles_def squashKeys_empty Let_def)
qed

theorem squashJustHoles_spec_witness:
  "distinct (keys holesDoc)
   \<and> squashJustHoles ''nonconn'' toDoubleDec ForCopper holesDoc =
     Elem 0 ''svg'' []
       [Elem 1 ''g'' [(''partID'', ''57'')]
          [Elem 2 ''g'' [(''id'', ''nonconn0''), (''r'', ''10''), (''stroke-width'', ''0'')] [],
           Elem 3 ''circle'' [(''id'', ''connector0pin''), (''r'', ''10''), (''stroke-width'', ''0'')] [],
           Elem 4 ''circle'' [(''id'', ''nonconn1''), (''r'', ''10''), (''stroke-width'', ''2'')] [],
           Elem 5 ''g'' [(''id'', ''nonconn2''), (''r'', ''10'')] []]]
   \<and> squashJustHoles ''nonconn'' toDoubleDec ForDrill holesDoc = holesDoc"
proof -
  have d: "distinct (keys holesDoc)" by (simp add: holesDoc_def keys_def allNodes_def)
  show ?thesis
    using d squashJustHoles_spec[OF d, of "''nonconn''" toDoubleDec ForCopper]
      squashJustHoles_spec[OF d, of "''nonconn''" toDoubleDec ForDrill]
    by (simp add: holesDoc_def squashBelow_def isJustHole_def attribute_def toDoubleDec_def
        unsignedDec_def digitVal_def sameChar_def)
qed

section \<open>Properties of the cleaning pass\<close>

lemma squashElement_none:
  "(\<And>e. e \<in> set (descendants doc) \<Longrightarrow> tagName e = elementName \<Longrightarrow>
      \<not> (attName = [] \<or> (hasAttribute e attName \<and> matchContent (attribute e attName))))
   \<Longrightarrow> squashElement doc elementName attName matchContent = (doc, False)"
  by (simp add: squashElement_def elementsByTagName_def filter_empty_conv)

lemma fold_scaled_none:
  "(\<And>e. e \<in> set ps \<Longrightarrow> \<not> scaledAncestry isScaling (nodeKey e) doc) \<Longrightarrow>
   fold (\<lambda>path (doc, anyConverted).
             if scaledAncestry isScaling (nodeKey path) doc
             then (setTagName (nodeKey path) ''g'' doc, True)
             else (doc, anyConverted)) ps (doc, b) = (doc, b)"
  by (induction ps) auto

lemma squashScaledPaths_none:
  "(\<And>e. e \<in> set (descendants doc) \<Longrightarrow> tagName e = ''path''
      \<Longrightarrow> \<not> scaledAncestry isScaling (nodeKey e) doc)
   \<Longrightarrow> squashScaledPaths isScaling doc = (doc, False)"
  unfolding squashScaledPaths_def
  by (rule fold_scaled_none) (simp add: elementsByTagName_def)

text \<open>The cleaning pass does squash: a rounded rectangle and a path under a scaling group
  become \<^verbatim>\<open>g\<close>, the plain rectangle stays, and the pass reports a conversion.\<close>

lemma cleanGeometry_rounded_example:
  "cleanGeometry curveCommand multipleMarkers scaleTransform roundedDoc =
     (Elem 0 ''svg'' []
        [Elem 1 ''g'' [(''width'', ''10''), (''height'', ''5''), (''rx'', ''1'')] [],
         Elem 2 ''rect'' [(''width'', ''10''), (''height'', ''5'')] [],
         Elem 3 ''g'' [(''transform'', ''scale(2)'')] [Elem 4 ''g'' [(''d'', ''M0,0 L1,1'')] []]],
      True)"
  by (simp add: cleanGeometry_def squashElement_def squashScaledPaths_def elementsByTagName_def
      roundedDoc_def hasAttribute_def attribute_def setTagName_def emptyPattern_def notNone_def
      curveCommand_def multipleMarkers_def closeMarker_def scaleTransform_def scaledAncestry_def
      ancestry_def sameChar_def)

text \<open>
  Claim C7. When every element below the root is in the Gerber-safe set (no text, ellipse
  or image; rectangles without rx, ry and with no stroke-dasharray other than none; circles
  and lines with no stroke-dasharray other than none; paths whose data has no curve command
  and no multiple contours and that carry no scaling transform, on themselves or on an
  ancestor), the cleaning pass returns the document as it was and reports that nothing was
  converted.
\<close>

theorem cleanGeometry_safe:
  assumes "gerberSafe AaCc MultipleZs isScaling doc"
  shows "cleanGeometry AaCc MultipleZs isScaling doc = (doc, False)"
proof -
  have safe: "gerberSafeElement AaCc MultipleZs isScaling doc e" if "e \<in> set (descendants doc)" for e
    using assms that by (simp add: gerberSafe_def list_all_iff)
  have 1: "squashElement doc ''text'' [] emptyPattern = (doc, False)"
    by (rule squashElement_none) (use safe in \<open>auto simp: gerberSafeElement_def\<close>)
  have 2: "squashElement doc ''ellipse'' [] emptyPattern = (doc, False)"
    by (rule squashElement_none) (use safe in \<open>auto simp: gerberSafeElement_def\<close>)
  have 3: "squashElement doc ''rect'' ''rx'' emptyPattern = (doc, False)"
    by (rule squashElement_none) (use safe in \<open>auto simp: gerberSafeElement_def\<close>)
  have 4: "squashElement doc ''rect'' ''ry'' emptyPattern = (doc, False)"
    by (rule squashElement_none) (use safe in \<open>auto simp: gerberSafeElement_def\<close>)
  have nd: "\<not> (hasAttribute e ''stroke-dasharray'' \<and> notNone (attribute e ''stroke-dasharray''))"
    if "noDash e" for e
    using that by (auto simp: noDash_def notNone_def sameChar_def)
  have 5: "squashElement doc ''rect'' ''stroke-dasharray'' notNone = (doc, False)"
    by (rule squashElement_none) (use safe nd in \<open>auto simp: gerberSafeElement_def\<close>)
  have 6: "squashElement doc ''circle'' ''stroke-dasharray'' notNone = (doc, False)"
    by (rule squashElement_none) (use safe nd in \<open>auto simp: gerberSafeElement_def\<close>)
  have 7: "squashElement doc ''line'' ''stroke-dasharray'' notNone = (doc, False)"
    by (rule squashElement_none) (use safe nd in \<open>auto simp: gerberSafeElement_def\<close>)
  have 8: "squashElement doc ''path'' ''d'' AaCc = (doc, False)"
    by (rule squashElement_none) (use safe in \<open>auto simp: gerberSafeElement_def\<close>)
  have 9: "squashElement doc ''path'' ''d'' MultipleZs = (doc, False)"
    by (rule squashElement_none) (use safe in \<open>auto simp: gerberSafeElement_def\<close>)
  have 10: "squashElement doc ''image'' [] emptyPattern = (doc, False)"
    by (rule squashElement_none) (use safe in \<open>auto simp: gerberSafeElement_def\<close>)
  have 11: "squashScaledPaths isScaling doc = (doc, False)"
    by (rule squashScaledPaths_none) (use safe in \<open>auto simp: gerberSafeElement_def\<close>)
  show ?thesis
    by (simp add: cleanGeometry_def 1 2 3 4 5 6 7 8 9 10 11)
qed

theorem cleanGeometry_safe_witness:
  "gerberSafe curveCommand multipleMarkers scaleTransform safeDoc
   \<and> cleanGeometry curveCommand multipleMarkers scaleTransform safeDoc = (safeDoc, False)"
proof -
  have s: "gerberSafe curveCommand multipleMarkers scaleTransform safeDoc"
    by (simp add: gerberSafe_def gerberSafeElement_def safeDoc_def noDash_def hasAttribute_def
        attribute_def curveCommand_def multipleMarkers_def closeMarker_def scaleTransform_def
        scaledAncestry_def ancestry_def sameChar_def)
  show ?thesis using s cleanGeometry_safe[OF s] by simp
qed

section \<open>Properties of the bounds test\<close>

lemma chains_modifyAt:
  "chainsTo k (modifyAt k' f g n) = map (map (modifyAt k' f g)) (chainsTo k n)"
proof (induction n)
  case (Elem k0 t a cs)
  have "concat (map (chainsTo k) (map (modifyAt k' f g) cs))
        = map (map (modifyAt k' f g)) (concat (map (chainsTo k) cs))"
    using Elem.IH by (simp add: map_concat comp_def cong: map_cong)
  then show ?case by (simp add: comp_def)
qed

lemma chains_hd_key: "ch \<in> set (chainsTo k n) \<Longrightarrow> ch \<noteq> [] \<and> nodeKey (hd ch) = k"
  by (induction n arbitrary: ch) (auto split: if_splits)

lemma findNode_key:
  assumes "findNode k doc = Some e"
  shows "nodeKey e = k"
proof -
  from assms obtain ch chs rest where c: "chainsTo k doc = ch # chs" and ch: "ch = e # rest"
    by (auto simp: findNode_def ancestry_def split: list.splits)
  have "ch \<in> set (chainsTo k doc)" using c by simp
  from chains_hd_key[OF this] ch show ?thesis by simp
qed

lemma findNode_modifyAt:
  "findNode k (modifyAt k' f g doc) = map_option (modifyAt k' f g) (findNode k doc)"
  by (auto simp: findNode_def ancestry_def chains_modifyAt split: list.splits)

lemma tagName_modifyAt:
  "tagName (modifyAt k f g n) = (if nodeKey n = k then f (tagName n) else tagName n)"
  by (cases n) simp

lemma tagOf_setTagName:
  "tagOf k (setTagName k' t doc) = (if k = k' \<and> findNode k doc \<noteq> None then t else tagOf k doc)"
proof (cases "findNode k doc")
  case None
  then show ?thesis by (simp add: tagOf_def setTagName_def findNode_modifyAt)
next
  case (Some e)
  with findNode_key[OF Some] show ?thesis
    by (simp add: tagOf_def setTagName_def findNode_modifyAt tagName_modifyAt)
qed

lemma clipLeaves_tagOf_other:
  "k \<notin> set ls \<Longrightarrow> tagOf k (fst (clipLeaves renderer sourceRes i ls (doc, ph, ac))) = tagOf k doc"
  by (induction ls arbitrary: i doc ph ac) (auto simp: Let_def tagOf_setTagName)

lemma clipLeaves_tagOf:
  assumes "distinct ls" "j < length ls" "findNode (ls ! j) doc = Some e"
  shows "tagOf (ls ! j) (fst (clipLeaves renderer sourceRes i ls (doc, ph, ac))) =
     (if outsideBoard sourceRes (mapRect (transformForElement renderer (showNat (i + j)))
                                   (boundsOnElement renderer (showNat (i + j))))
      then ''g'' else tagName e)"
  using assms
proof (induction ls arbitrary: i j doc ph ac e)
  case Nil
  then show ?case by simp
next
  case (Cons x ls)
  show ?case
  proof (cases j)
    case 0
    with Cons.prems have x: "x \<notin> set ls" and t: "tagOf x doc = tagName e"
      and f: "findNode x doc \<noteq> None"
      by (auto simp: tagOf_def)
    from 0 x t f show ?thesis
      by (simp add: Let_def clipLeaves_tagOf_other tagOf_setTagName)
  next
    case (Suc j')
    with Cons.prems have d: "distinct ls" and j': "j' < length ls" and ne: "ls ! j' \<noteq> x"
      and f: "findNode (ls ! j') doc = Some e" by auto
    have f': "findNode (ls ! j') (setTagName x ''g'' doc) = Some (setTagName x ''g'' e)"
      using f by (simp add: setTagName_def findNode_modifyAt)
    have t: "tagName (setTagName x ''g'' e) = tagName e"
      using ne findNode_key[OF f] by (simp add: setTagName_def tagName_modifyAt)
    show ?thesis
      using Cons.IH[OF d j' f, of "Suc i"] Cons.IH[OF d j' f', of "Suc i"] Suc t
      by (simp add: Let_def)
  qed
qed

lemma mapRect_identity_ex:
  "mapRect identityTransform (QRectF x y 10 10) = QRectF x y 10 10"
  by (simp add: mapRect_def identityTransform_def mapPoint_def rectLeft_def rectTop_def
      rectRight_def rectBottom_def Let_def)

lemma findNode_edgeDoc:
  "findNode 2 edgeDoc = Some (Elem 2 ''rect'' [(''id'', ''0'')] [])"
  "findNode 3 edgeDoc = Some (Elem 3 ''rect'' [(''id'', ''1'')] [])"
  by (simp_all add: findNode_def ancestry_def edgeDoc_def)



section \<open>Properties of the render loop\<close>

lemma renderLoop_inv:
  assumes "counter \<le> 5"
    and "\<And>h. hashMap h = (if \<exists>j<counter. imageToHash (render j) = h
                          then Some (render (THE j. j < counter \<and> imageToHash (render j) = h)) else None)"
    and "\<And>i. i < counter \<Longrightarrow> \<not> seenBefore render imageToHash i"
    and "renderLoop render imageToHash hashMap counter = (hash, hashMap', n)"
  shows "counter < n \<and> n \<le> 6 \<and> hash = imageToHash (render (n - 1))
    \<and> (\<forall>i<n - 1. \<not> seenBefore render imageToHash i)
    \<and> ((\<exists>j<n - 1. imageToHash (render j) = hash \<and> hashMap' hash = Some (render j))
       \<or> (n = 6 \<and> \<not> seenBefore render imageToHash 5 \<and> hashMap' hash = Some (render 5)))"
  using assms
proof (induction render imageToHash hashMap counter rule: renderLoop.induct)
  case (1 render imageToHash hashMap counter)
  let ?h = "imageToHash (render counter)"
  have inj: "i = j" if "i < counter" "j < counter" "imageToHash (render i) = imageToHash (render j)" for i j
  proof (rule ccontr)
    assume "i \<noteq> j"
    then consider "i < j" | "j < i" by linarith
    then show False
    proof cases
      case 1 then show ?thesis using "1.prems"(3)[of j] that by (auto simp: seenBefore_def)
    next
      case 2 then show ?thesis using "1.prems"(3)[of i] that by (auto simp: seenBefore_def)
    qed
  qed
  show ?case
  proof (cases "hashMap ?h \<noteq> None")
    case True
    then obtain j where j: "j < counter" "imageToHash (render j) = ?h"
      using "1.prems"(2)[of ?h] by (auto split: if_splits)
    have the: "(THE j. j < counter \<and> imageToHash (render j) = ?h) = j"
      using j inj by (intro the_equality) auto
    have res: "hash = ?h" "hashMap' = hashMap" "n = Suc counter"
      using "1.prems"(4) True by (simp_all add: renderLoop.simps[of render imageToHash hashMap counter] Let_def)
    have "hashMap ?h = Some (render j)" using "1.prems"(2)[of ?h] j the by auto
    then show ?thesis using res j "1.prems"(1,3) by auto
  next
    case False
    then have new: "\<not> seenBefore render imageToHash counter"
      using "1.prems"(2)[of ?h] by (auto simp: seenBefore_def split: if_splits)
    show ?thesis
    proof (cases "counter \<ge> 5")
      case True
      then have c5: "counter = 5" using "1.prems"(1) by simp
      have res: "hash = ?h" "hashMap' = hashMap(?h \<mapsto> render counter)" "n = Suc counter"
        using "1.prems"(4) False True
        by (auto simp: renderLoop.simps[of render imageToHash hashMap counter] Let_def)
      show ?thesis using res c5 new "1.prems"(3) by auto
    next
      case c: False
      have eq: "renderLoop render imageToHash (hashMap(?h \<mapsto> render counter)) (counter + 1) = (hash, hashMap', n)"
        using "1.prems"(4) False c
        by (simp add: renderLoop.simps[of render imageToHash hashMap counter] Let_def)
      have inv2: "(hashMap(?h \<mapsto> render counter)) h = (if \<exists>j<counter + 1. imageToHash (render j) = h
                          then Some (render (THE j. j < counter + 1 \<and> imageToHash (render j) = h)) else None)" for h
      proof (cases "h = ?h")
        case True
        have "(THE j. j < counter + 1 \<and> imageToHash (render j) = h) = counter"
        proof (rule the_equality)
          show "counter < counter + 1 \<and> imageToHash (render counter) = h" using True by simp
        next
          fix j assume a: "j < counter + 1 \<and> imageToHash (render j) = h"
          show "j = counter"
          proof (rule ccontr)
            assume "j \<noteq> counter"
            then have "j < counter" using a by simp
            then show False using new a True by (auto simp: seenBefore_def)
          qed
        qed
        then show ?thesis using True by auto
      next
        case ne: False
        have ex: "(\<exists>j<counter + 1. imageToHash (render j) = h) = (\<exists>j<counter. imageToHash (render j) = h)"
          using ne by (auto simp: less_Suc_eq)
        have "(THE j. j < counter + 1 \<and> imageToHash (render j) = h) = (THE j. j < counter \<and> imageToHash (render j) = h)"
          using ne by (intro arg_cong[where f=The]) (auto simp: less_Suc_eq fun_eq_iff)
        then show ?thesis using ne ex "1.prems"(2)[of h] by simp
      qed
      have nb: "\<not> seenBefore render imageToHash i" if "i < counter + 1" for i
        using that new "1.prems"(3)[of i] by (cases "i = counter") auto
      have "counter + 1 \<le> 5" using c by simp
      from "1.IH"[OF refl refl False refl c this inv2 nb eq]
      show ?thesis by auto
    qed
  qed
qed

text \<open>
  Claim C8. The render loop is a total function, so it always ends. It renders at least
  once and at most six times (a first render and five retries); no render before the last
  one has a digest seen earlier; the image used has the digest of the last render; and
  either the last render's digest was seen at an earlier render, whose stored image is the
  one used, or six images were rendered without a repeat and the last one is used.
\<close>

theorem renderUntilRepeat_bounded:
  "case renderUntilRepeat render imageToHash of
     (img, renders) \<Rightarrow>
       1 \<le> renders \<and> renders \<le> 6
       \<and> (\<forall>i<renders - 1. \<not> seenBefore render imageToHash i)
       \<and> imageToHash img = imageToHash (render (renders - 1))
       \<and> ((\<exists>j<renders - 1. imageToHash (render j) = imageToHash (render (renders - 1))
                \<and> img = render j)
          \<or> (renders = 6 \<and> \<not> seenBefore render imageToHash 5 \<and> img = render 5))"
proof -
  obtain hash hashMap' n where r: "renderLoop render imageToHash Map.empty 0 = (hash, hashMap', n)"
    by (cases "renderLoop render imageToHash Map.empty 0") auto
  have "0 < n \<and> n \<le> 6 \<and> hash = imageToHash (render (n - 1))
    \<and> (\<forall>i<n - 1. \<not> seenBefore render imageToHash i)
    \<and> ((\<exists>j<n - 1. imageToHash (render j) = hash \<and> hashMap' hash = Some (render j))
       \<or> (n = 6 \<and> \<not> seenBefore render imageToHash 5 \<and> hashMap' hash = Some (render 5)))"
    by (rule renderLoop_inv[OF _ _ _ r]) auto
  then show ?thesis
    by (auto simp: renderUntilRepeat_def r)
qed

lemma flicker_run: "renderUntilRepeat flickerRender rowHash = ([[True, True]], 3)"
  by (simp add: renderUntilRepeat_def renderLoop.simps flickerRender_def rowHash_def Let_def)

lemma counting_run: "renderUntilRepeat countingRender rowHash = ([[True, True, True, True, True]], 6)"
  by (simp add: renderUntilRepeat_def renderLoop.simps countingRender_def rowHash_def Let_def
      eval_nat_numeral)

theorem renderUntilRepeat_bounded_witness:
  "renderUntilRepeat flickerRender rowHash = (flickerRender 2, 3)
   \<and> rowHash (flickerRender 0) = rowHash (flickerRender 2)
   \<and> \<not> seenBefore flickerRender rowHash 0 \<and> \<not> seenBefore flickerRender rowHash 1
   \<and> renderUntilRepeat countingRender rowHash = (countingRender 5, 6)"
  using renderUntilRepeat_bounded[of flickerRender rowHash]
    renderUntilRepeat_bounded[of countingRender rowHash]
  by (simp add: flicker_run counting_run flickerRender_def countingRender_def rowHash_def
      eval_nat_numeral)

section \<open>Properties of the layer pipeline\<close>

lemma renderCalls_append [simp]: "renderCalls (a @ b) = renderCalls a @ renderCalls b"
  by (simp add: renderCalls_def)

lemma filesWritten_append [simp]: "filesWritten (a @ b) = filesWritten a @ filesWritten b"
  by (simp add: filesWritten_def)

lemma renderCalls_Nil [simp]: "renderCalls [] = []"
  by (simp add: renderCalls_def)

lemma filesWritten_Nil [simp]: "filesWritten [] = []"
  by (simp add: filesWritten_def)

lemma renderCalls_displayMessage [simp]: "renderCalls (displayMessage m b) = []"
  by (simp add: renderCalls_def displayMessage_def)

lemma filesWritten_displayMessage [simp]: "filesWritten (displayMessage m b) = []"
  by (simp add: filesWritten_def displayMessage_def)

lemma renderCalls_displayMessages [simp]: "renderCalls (displayMessages ms b) = []"
  by (induction ms) (simp_all add: displayMessages_def)

lemma filesWritten_displayMessages [simp]: "filesWritten (displayMessages ms b) = []"
  by (induction ms) (simp_all add: displayMessages_def)

lemma renderCalls_Cons [simp]:
  "renderCalls (Render ls # tr) = ls # renderCalls tr"
  "renderCalls (MessageBox m # tr) = renderCalls tr"
  "renderCalls (DebugLine m # tr) = renderCalls tr"
  "renderCalls (FileWritten f c # tr) = renderCalls tr"
  by (simp_all add: renderCalls_def)

lemma filesWritten_Cons [simp]:
  "filesWritten (Render ls # tr) = filesWritten tr"
  "filesWritten (MessageBox m # tr) = filesWritten tr"
  "filesWritten (DebugLine m # tr) = filesWritten tr"
  "filesWritten (FileWritten f c # tr) = f # filesWritten tr"
  by (simp_all add: filesWritten_def)

lemma renderCalls_clip [simp]: "renderCalls (snd (clipToBoard env a b c d e f g)) = []"
  by (simp add: clipToBoard_def case_prod_beta)

lemma filesWritten_clip [simp]: "filesWritten (snd (clipToBoard env a b c d e f g)) = []"
  by (simp add: clipToBoard_def case_prod_beta)

lemma renderCalls_saveEnd [simp]: "renderCalls (snd (saveEnd env a b c d e f)) = []"
  by (simp add: saveEnd_def Let_def)

lemma filesWritten_saveEnd:
  "set (filesWritten (snd (saveEnd env a dir prefix suffix e f))) \<subseteq> {dir @ ''/'' @ prefix @ suffix}"
  by (simp add: saveEnd_def Let_def)

lemma renderCalls_doEnd [simp]: "renderCalls (snd (doEnd env a b c d e f g h i)) = []"
  by (simp add: doEnd_def case_prod_beta)

lemma filesWritten_doEnd:
  "set (filesWritten (snd (doEnd env a b c d e dir prefix suffix i))) \<subseteq> {dir @ ''/'' @ prefix @ suffix}"
  using filesWritten_saveEnd by (simp add: doEnd_def case_prod_beta)

lemma renderTo_eq: "renderTo env a b ls board = (renderToSVG env a b board ls, [Render ls])"
  by (simp add: renderTo_def)

lemma doCopper_renderCalls: "renderCalls (snd (doCopper env board ls name suffix filename dir dmb)) = [ls]"
  by (simp add: doCopper_def renderTo_eq Let_def case_prod_beta)

lemma doCopper_files:
  "set (filesWritten (snd (doCopper env board ls name suffix filename dir dmb))) \<subseteq> {dir @ ''/'' @ filename @ suffix}"
  using filesWritten_doEnd by (simp add: doCopper_def renderTo_eq Let_def case_prod_beta)

lemma doCopper_empty:
  "snd (renderToSVG env False False board ls) \<or> fst (renderToSVG env False False board ls) = [] \<Longrightarrow>
   snd (doCopper env board ls name suffix filename dir dmb)
     = [Render ls] @ displayMessage (name @ '' layer export is empty.'') dmb"
  by (simp add: doCopper_def renderTo_eq Let_def case_prod_beta)

lemma doCopper_files_nonempty:
  "snd (renderToSVG env False False board ls) \<or> fst (renderToSVG env False False board ls) = [] \<Longrightarrow>
   filesWritten (snd (doCopper env board ls name suffix filename dir dmb)) = []"
  by (simp add: doCopper_empty)

lemma doSilk_renderCalls: "renderCalls (snd (doSilk env ls name suffix board filename dir dmb clip)) = [ls]"
  by (simp add: doSilk_def renderTo_eq Let_def case_prod_beta)

lemma doSilk_files:
  "set (filesWritten (snd (doSilk env ls name suffix board filename dir dmb clip))) \<subseteq> {dir @ ''/'' @ filename @ suffix}"
  using filesWritten_doEnd by (simp add: doSilk_def renderTo_eq Let_def case_prod_beta)

lemma doSilk_empty:
  "snd (renderToSVG env False False board ls) \<or> fst (renderToSVG env False False board ls) = [] \<Longrightarrow>
   snd (doSilk env ls name suffix board filename dir dmb clip)
     = [Render ls] @ (if Silkscreen1 \<in> set ls
                      then displayMessage (''silk layer '' @ name @ '' export is empty'') dmb else [])"
  by (simp add: doSilk_def renderTo_eq Let_def case_prod_beta)

lemma doDrill_renderCalls: "renderCalls (snd (doDrill env board filename dir dmb)) = [drillLayers env]"
  by (simp add: doDrill_def renderTo_eq Let_def case_prod_beta)

lemma doDrill_files:
  "set (filesWritten (snd (doDrill env board filename dir dmb))) \<subseteq> {dir @ ''/'' @ filename @ DrillSuffix}"
  using filesWritten_doEnd by (simp add: doDrill_def renderTo_eq Let_def case_prod_beta)

lemma doDrill_empty:
  "snd (renderToSVG env False False board (drillLayers env))
     \<or> fst (renderToSVG env False False board (drillLayers env)) = [] \<Longrightarrow>
   snd (doDrill env board filename dir dmb)
     = [Render (drillLayers env)] @ displayMessage ''exported drill file is empty'' dmb"
  by (simp add: doDrill_def renderTo_eq Let_def case_prod_beta)

lemma doMask_renderCalls: "renderCalls (snd (fst (doMask env ls name suffix board filename dir dmb clip))) = [ls]"
  by (simp add: doMask_def renderTo_eq Let_def case_prod_beta)

lemma doMask_files:
  "set (filesWritten (snd (fst (doMask env ls name suffix board filename dir dmb clip))))
     \<subseteq> {dir @ ''/'' @ filename @ suffix}"
  using filesWritten_doEnd by (simp add: doMask_def renderTo_eq Let_def case_prod_beta)

lemma doMask_empty:
  "snd (renderToSVG env True False board ls) \<or> fst (renderToSVG env True False board ls) = [] \<Longrightarrow>
   snd (fst (doMask env ls name suffix board filename dir dmb clip))
     = [Render ls] @ displayMessage (''exported mask layer '' @ name @ '' is empty'') dmb"
  by (simp add: doMask_def renderTo_eq Let_def case_prod_beta)

lemma doPasteMask_renderCalls: "renderCalls (snd (doPasteMask env ls name suffix board filename dir dmb)) = [ls]"
  by (simp add: doPasteMask_def renderTo_eq Let_def case_prod_beta)

lemma doPasteMask_files:
  "set (filesWritten (snd (doPasteMask env ls name suffix board filename dir dmb)))
     \<subseteq> {dir @ ''/'' @ filename @ suffix}"
  using filesWritten_doEnd by (simp add: doPasteMask_def renderTo_eq Let_def case_prod_beta)

lemma doPasteMask_empty:
  "snd (renderToSVG env True True board ls) \<or> fst (renderToSVG env True True board ls) = [] \<Longrightarrow>
   snd (doPasteMask env ls name suffix board filename dir dmb)
     = [Render ls] @ displayMessage ''exported paste mask layer is empty'' dmb"
  by (simp add: doPasteMask_def renderTo_eq Let_def case_prod_beta)

lemma exportPickAndPlace_renderCalls: "renderCalls (exportPickAndPlace env prefix dir board dmb) = []"
  by (simp add: exportPickAndPlace_def Let_def)

lemma exportPickAndPlace_files:
  "set (filesWritten (exportPickAndPlace env prefix dir board dmb)) \<subseteq> {dir @ ''/'' @ prefix @ PickAndPlaceSuffix}"
  by (simp add: exportPickAndPlace_def Let_def)

lemma renderCalls_summaryMessage [simp]: "renderCalls (summaryMessage a b c d e dmb) = []"
  by (simp add: summaryMessage_def Let_def)

lemma filesWritten_summaryMessage [simp]: "filesWritten (summaryMessage a b c d e dmb) = []"
  by (simp add: summaryMessage_def Let_def)

lemma exportOutlineAndDrill_renderCalls:
  "renderCalls (exportOutlineAndDrill env prefix dir board dmb a b c d)
   = outlineLayers env # (if nothingRendered env board Outline then [] else [drillLayers env])"
  by (simp add: exportOutlineAndDrill_def renderTo_eq Let_def case_prod_beta nothingRendered_def
      doDrill_renderCalls)

lemma exportOutlineAndDrill_empty:
  "nothingRendered env board Outline \<Longrightarrow>
   exportOutlineAndDrill env prefix dir board dmb a b c d
   = [Render (outlineLayers env)] @ displayMessage ''outline is empty'' dmb"
  by (simp add: exportOutlineAndDrill_def renderTo_eq Let_def case_prod_beta nothingRendered_def)

lemma exportOutlineAndDrill_drill:
  "\<not> nothingRendered env board Outline \<Longrightarrow>
   set (snd (doDrill env board prefix dir dmb)) \<subseteq> set (exportOutlineAndDrill env prefix dir board dmb a b c d)"
  by (auto simp: exportOutlineAndDrill_def renderTo_eq Let_def case_prod_beta nothingRendered_def)

lemma saveEnd_file:
  "f \<in> set (filesWritten (snd (saveEnd env a dir prefix suffix e g))) \<Longrightarrow> f = dir @ ''/'' @ prefix @ suffix"
  using filesWritten_saveEnd[of env a dir prefix suffix e g] by auto

lemma doDrill_file:
  "f \<in> set (filesWritten (snd (doDrill env board prefix dir dmb))) \<Longrightarrow>
   f = dir @ ''/'' @ prefix @ DrillSuffix \<and> \<not> nothingRendered env board DrillLayer"
  using doDrill_files[of env board prefix dir dmb] doDrill_empty[of env board prefix dir dmb]
  by (cases "nothingRendered env board DrillLayer") (auto simp: nothingRendered_def)

lemma exportOutlineAndDrill_files:
  "set (filesWritten (exportOutlineAndDrill env prefix dir board dmb a b c d))
   \<subseteq> (if nothingRendered env board Outline then {}
       else {dir @ ''/'' @ prefix @ OutlineSuffix}
            \<union> (if nothingRendered env board DrillLayer then {} else {dir @ ''/'' @ prefix @ DrillSuffix}))"
proof (cases "nothingRendered env board Outline")
  case True
  then show ?thesis by (simp add: exportOutlineAndDrill_empty)
next
  case False
  show ?thesis
  proof
    fix f assume "f \<in> set (filesWritten (exportOutlineAndDrill env prefix dir board dmb a b c d))"
    then have "(\<exists>x g. f \<in> set (filesWritten (snd (saveEnd env x dir prefix OutlineSuffix dmb g))))
               \<or> f \<in> set (filesWritten (snd (doDrill env board prefix dir dmb)))"
      using False
      by (auto simp: exportOutlineAndDrill_def renderTo_eq Let_def case_prod_beta nothingRendered_def)
    then show "f \<in> (if nothingRendered env board Outline then {}
       else {dir @ ''/'' @ prefix @ OutlineSuffix}
            \<union> (if nothingRendered env board DrillLayer then {} else {dir @ ''/'' @ prefix @ DrillSuffix}))"
      using False by (auto dest: saveEnd_file doDrill_file)
  qed
qed

lemma doCopper_file:
  "f \<in> set (filesWritten (snd (doCopper env board ls name suffix filename dir dmb))) \<Longrightarrow>
   f = dir @ ''/'' @ filename @ suffix
   \<and> \<not> (snd (renderToSVG env False False board ls) \<or> fst (renderToSVG env False False board ls) = [])"
  using doCopper_files[of env board ls name suffix filename dir dmb]
    doCopper_empty[of env board ls name suffix filename dir dmb]
  by (cases "snd (renderToSVG env False False board ls) \<or> fst (renderToSVG env False False board ls) = []") auto

lemma doSilk_file:
  "f \<in> set (filesWritten (snd (doSilk env ls name suffix board filename dir dmb clip))) \<Longrightarrow>
   f = dir @ ''/'' @ filename @ suffix
   \<and> \<not> (snd (renderToSVG env False False board ls) \<or> fst (renderToSVG env False False board ls) = [])"
  using doSilk_files[of env ls name suffix board filename dir dmb clip]
    doSilk_empty[of env board ls name suffix filename dir dmb clip]
  by (cases "snd (renderToSVG env False False board ls) \<or> fst (renderToSVG env False False board ls) = []")
    (auto split: if_splits)

lemma doMask_file:
  "f \<in> set (filesWritten (snd (fst (doMask env ls name suffix board filename dir dmb clip)))) \<Longrightarrow>
   f = dir @ ''/'' @ filename @ suffix
   \<and> \<not> (snd (renderToSVG env True False board ls) \<or> fst (renderToSVG env True False board ls) = [])"
  using doMask_files[of env ls name suffix board filename dir dmb clip]
    doMask_empty[of env board ls name suffix filename dir dmb clip]
  by (cases "snd (renderToSVG env True False board ls) \<or> fst (renderToSVG env True False board ls) = []") auto

lemma doPasteMask_file:
  "f \<in> set (filesWritten (snd (doPasteMask env ls name suffix board filename dir dmb))) \<Longrightarrow>
   f = dir @ ''/'' @ filename @ suffix
   \<and> \<not> (snd (renderToSVG env True True board ls) \<or> fst (renderToSVG env True True board ls) = [])"
  using doPasteMask_files[of env ls name suffix board filename dir dmb]
    doPasteMask_empty[of env board ls name suffix filename dir dmb]
  by (cases "snd (renderToSVG env True True board ls) \<or> fst (renderToSVG env True True board ls) = []") auto

lemma exportPickAndPlace_file:
  "f \<in> set (filesWritten (exportPickAndPlace env prefix dir board dmb)) \<Longrightarrow>
   f = dir @ ''/'' @ prefix @ PickAndPlaceSuffix"
  using exportPickAndPlace_files[of env prefix dir board dmb] by auto

lemma exportOutlineAndDrill_file:
  "f \<in> set (filesWritten (exportOutlineAndDrill env prefix dir board dmb a b c d)) \<Longrightarrow>
   \<not> nothingRendered env board Outline
   \<and> (f = dir @ ''/'' @ prefix @ OutlineSuffix
      \<or> (f = dir @ ''/'' @ prefix @ DrillSuffix \<and> \<not> nothingRendered env board DrillLayer))"
  using exportOutlineAndDrill_files[of env prefix dir board dmb a b c d]
  by (auto split: if_splits)

lemma exportLayers_renderCalls:
  "renderCalls (exportLayers env prefix dir board dmb) = map (layerList env) (renderedLayers env board)"
  by (simp add: exportLayers_def Let_def renderedLayers_def layersThroughOutline_def doCopper_renderCalls
      doMask_renderCalls doPasteMask_renderCalls doSilk_renderCalls exportPickAndPlace_renderCalls
      exportOutlineAndDrill_renderCalls)

lemma exportLayers_file_parts:
  assumes "f \<in> set (filesWritten (exportLayers env prefix dir board dmb))"
  shows "f \<in> set (filesWritten (exportPickAndPlace env prefix dir board dmb))
    \<or> f \<in> set (filesWritten (snd (doCopper env board (copperLayers env NewBottom) ''Copper0'' CopperBottomSuffix prefix dir dmb)))
    \<or> (boardLayers env = 2 \<and> f \<in> set (filesWritten (snd (doCopper env board (copperLayers env NewTop) ''Copper1'' CopperTopSuffix prefix dir dmb))))
    \<or> f \<in> set (filesWritten (snd (fst (doMask env (maskLayers env NewBottom) ''Mask0'' MaskBottomSuffix board prefix dir dmb []))))
    \<or> (boardLayers env = 2 \<and> f \<in> set (filesWritten (snd (fst (doMask env (maskLayers env NewTop) ''Mask1'' MaskTopSuffix board prefix dir dmb [])))))
    \<or> f \<in> set (filesWritten (snd (doPasteMask env (maskLayers env NewBottom) ''PasteMask0'' PasteMaskBottomSuffix board prefix dir dmb)))
    \<or> (boardLayers env = 2 \<and> f \<in> set (filesWritten (snd (doPasteMask env (maskLayers env NewTop) ''PasteMask1'' PasteMaskTopSuffix board prefix dir dmb))))
    \<or> (\<exists>clip. f \<in> set (filesWritten (snd (doSilk env (silkLayers env NewTop) ''Silk1'' SilkTopSuffix board prefix dir dmb clip))))
    \<or> (\<exists>clip. f \<in> set (filesWritten (snd (doSilk env (silkLayers env NewBottom) ''Silk0'' SilkBottomSuffix board prefix dir dmb clip))))
    \<or> (\<exists>a b c d. f \<in> set (filesWritten (exportOutlineAndDrill env prefix dir board dmb a b c d)))"
  using assms unfolding exportLayers_def Let_def filesWritten_append set_append Un_iff
  by (cases "boardLayers env = 2") (simp_all, blast+)

lemma exportLayers_file:
  assumes "f \<in> set (filesWritten (exportLayers env prefix dir board dmb))"
  shows "f = dir @ ''/'' @ prefix @ PickAndPlaceSuffix
     \<or> (\<exists>k\<in>set (renderedLayers env board). f = dir @ ''/'' @ prefix @ layerSuffix k
            \<and> \<not> nothingRendered env board k)"
proof -
  have in2: "k \<in> set (renderedLayers env board)"
    if "k \<in> {CopperBottom, MaskBottom, PasteMaskBottom, SilkTop, SilkBottom, Outline}
        \<or> (boardLayers env = 2 \<and> k \<in> {CopperTop, MaskTop, PasteMaskTop})
        \<or> (k = DrillLayer \<and> \<not> nothingRendered env board Outline)" for k
    using that by (auto simp: renderedLayers_def layersThroughOutline_def)
  let ?goal = "\<lambda>k. f = dir @ ''/'' @ prefix @ layerSuffix k \<and> \<not> nothingRendered env board k
                 \<and> k \<in> set (renderedLayers env board)"
  from exportLayers_file_parts[OF assms]
  consider (pnp) "f = dir @ ''/'' @ prefix @ PickAndPlaceSuffix" | (layer) k where "?goal k"
  proof (elim disjE conjE exE)
    assume "f \<in> set (filesWritten (exportPickAndPlace env prefix dir board dmb))"
    then show ?thesis using that(1) by (auto dest: exportPickAndPlace_file)
  next
    assume "f \<in> set (filesWritten (snd (doCopper env board (copperLayers env NewBottom) ''Copper0'' CopperBottomSuffix prefix dir dmb)))"
    from doCopper_file[OF this] have "?goal CopperBottom" using in2[of CopperBottom]
      by (simp add: nothingRendered_def)
    then show ?thesis by (rule that(2))
  next
    assume "boardLayers env = 2" "f \<in> set (filesWritten (snd (doCopper env board (copperLayers env NewTop) ''Copper1'' CopperTopSuffix prefix dir dmb)))"
    from doCopper_file[OF this(2)] this(1) have "?goal CopperTop" using in2[of CopperTop]
      by (simp add: nothingRendered_def)
    then show ?thesis by (rule that(2))
  next
    assume "f \<in> set (filesWritten (snd (fst (doMask env (maskLayers env NewBottom) ''Mask0'' MaskBottomSuffix board prefix dir dmb []))))"
    from doMask_file[OF this] have "?goal MaskBottom" using in2[of MaskBottom]
      by (simp add: nothingRendered_def)
    then show ?thesis by (rule that(2))
  next
    assume "boardLayers env = 2" "f \<in> set (filesWritten (snd (fst (doMask env (maskLayers env NewTop) ''Mask1'' MaskTopSuffix board prefix dir dmb []))))"
    from doMask_file[OF this(2)] this(1) have "?goal MaskTop" using in2[of MaskTop]
      by (simp add: nothingRendered_def)
    then show ?thesis by (rule that(2))
  next
    assume "f \<in> set (filesWritten (snd (doPasteMask env (maskLayers env NewBottom) ''PasteMask0'' PasteMaskBottomSuffix board prefix dir dmb)))"
    from doPasteMask_file[OF this] have "?goal PasteMaskBottom" using in2[of PasteMaskBottom]
      by (simp add: nothingRendered_def)
    then show ?thesis by (rule that(2))
  next
    assume "boardLayers env = 2" "f \<in> set (filesWritten (snd (doPasteMask env (maskLayers env NewTop) ''PasteMask1'' PasteMaskTopSuffix board prefix dir dmb)))"
    from doPasteMask_file[OF this(2)] this(1) have "?goal PasteMaskTop" using in2[of PasteMaskTop]
      by (simp add: nothingRendered_def)
    then show ?thesis by (rule that(2))
  next
    fix clip assume "f \<in> set (filesWritten (snd (doSilk env (silkLayers env NewTop) ''Silk1'' SilkTopSuffix board prefix dir dmb clip)))"
    from doSilk_file[OF this] have "?goal SilkTop" using in2[of SilkTop]
      by (simp add: nothingRendered_def)
    then show ?thesis by (rule that(2))
  next
    fix clip assume "f \<in> set (filesWritten (snd (doSilk env (silkLayers env NewBottom) ''Silk0'' SilkBottomSuffix board prefix dir dmb clip)))"
    from doSilk_file[OF this] have "?goal SilkBottom" using in2[of SilkBottom]
      by (simp add: nothingRendered_def)
    then show ?thesis by (rule that(2))
  next
    fix a b c d assume "f \<in> set (filesWritten (exportOutlineAndDrill env prefix dir board dmb a b c d))"
    from exportOutlineAndDrill_file[OF this] have "?goal Outline \<or> ?goal DrillLayer"
      using in2[of Outline] in2[of DrillLayer] by auto
    then show ?thesis using that(2) by blast
  qed
  then show ?thesis by cases auto
qed

lemma layerSuffix_inj:
  "dir @ ''/'' @ prefix @ layerSuffix k = dir @ ''/'' @ prefix @ layerSuffix k' \<Longrightarrow> k = k'"
  by (cases k; cases k')
    (simp_all add: CopperBottomSuffix_def CopperTopSuffix_def MaskBottomSuffix_def MaskTopSuffix_def
      PasteMaskBottomSuffix_def PasteMaskTopSuffix_def SilkTopSuffix_def SilkBottomSuffix_def
      OutlineSuffix_def DrillSuffix_def)

lemma layerSuffix_not_pnp:
  "dir @ ''/'' @ prefix @ layerSuffix k \<noteq> dir @ ''/'' @ prefix @ PickAndPlaceSuffix"
  by (cases k)
    (simp_all add: CopperBottomSuffix_def CopperTopSuffix_def MaskBottomSuffix_def MaskTopSuffix_def
      PasteMaskBottomSuffix_def PasteMaskTopSuffix_def SilkTopSuffix_def SilkBottomSuffix_def
      OutlineSuffix_def DrillSuffix_def PickAndPlaceSuffix_def)

lemma exportLayers_no_file:
  assumes "nothingRendered env board k"
  shows "dir @ ''/'' @ prefix @ layerSuffix k \<notin> set (filesWritten (exportLayers env prefix dir board dmb))"
proof
  assume "dir @ ''/'' @ prefix @ layerSuffix k \<in> set (filesWritten (exportLayers env prefix dir board dmb))"
  from exportLayers_file[OF this] layerSuffix_not_pnp[of dir prefix k]
  obtain k' where "dir @ ''/'' @ prefix @ layerSuffix k = dir @ ''/'' @ prefix @ layerSuffix k'"
    and "\<not> nothingRendered env board k'" by auto
  with layerSuffix_inj[of dir prefix k k'] assms show False by simp
qed

lemma exportLayers_parts:
  "set (snd (doCopper env board (copperLayers env NewBottom) ''Copper0'' CopperBottomSuffix prefix dir dmb))
     \<subseteq> set (exportLayers env prefix dir board dmb)"
  "boardLayers env = 2 \<Longrightarrow>
   set (snd (doCopper env board (copperLayers env NewTop) ''Copper1'' CopperTopSuffix prefix dir dmb))
     \<subseteq> set (exportLayers env prefix dir board dmb)"
  "set (snd (fst (doMask env (maskLayers env NewBottom) ''Mask0'' MaskBottomSuffix board prefix dir dmb [])))
     \<subseteq> set (exportLayers env prefix dir board dmb)"
  "boardLayers env = 2 \<Longrightarrow>
   set (snd (fst (doMask env (maskLayers env NewTop) ''Mask1'' MaskTopSuffix board prefix dir dmb [])))
     \<subseteq> set (exportLayers env prefix dir board dmb)"
  "set (snd (doPasteMask env (maskLayers env NewBottom) ''PasteMask0'' PasteMaskBottomSuffix board prefix dir dmb))
     \<subseteq> set (exportLayers env prefix dir board dmb)"
  "boardLayers env = 2 \<Longrightarrow>
   set (snd (doPasteMask env (maskLayers env NewTop) ''PasteMask1'' PasteMaskTopSuffix board prefix dir dmb))
     \<subseteq> set (exportLayers env prefix dir board dmb)"
  "\<exists>clip. set (snd (doSilk env (silkLayers env NewTop) ''Silk1'' SilkTopSuffix board prefix dir dmb clip))
     \<subseteq> set (exportLayers env prefix dir board dmb)"
  "\<exists>clip. set (snd (doSilk env (silkLayers env NewBottom) ''Silk0'' SilkBottomSuffix board prefix dir dmb clip))
     \<subseteq> set (exportLayers env prefix dir board dmb)"
  "\<exists>a b c d. set (exportOutlineAndDrill env prefix dir board dmb a b c d)
     \<subseteq> set (exportLayers env prefix dir board dmb)"
  unfolding exportLayers_def Let_def set_append
  by (simp_all, blast+)

lemma exportLayers_diagnostic:
  assumes k: "k \<in> set (renderedLayers env board)" and e: "nothingRendered env board k"
    and silk: "k = SilkTop \<or> k = SilkBottom \<Longrightarrow> Silkscreen1 \<in> set (layerList env k)"
  shows "set (displayMessage (emptyDiagnostic k) dmb) \<subseteq> set (exportLayers env prefix dir board dmb)"
proof (cases k)
  case CopperBottom
  with e exportLayers_parts(1)[of env board prefix dir dmb]
    doCopper_empty[of env board "copperLayers env NewBottom" "''Copper0''" CopperBottomSuffix prefix dir dmb]
  show ?thesis by (simp add: nothingRendered_def)
next
  case CopperTop
  with k have two: "boardLayers env = 2"
    by (auto simp: renderedLayers_def layersThroughOutline_def split: if_splits)
  with CopperTop e exportLayers_parts(2)[of env board prefix dir dmb]
    doCopper_empty[of env board "copperLayers env NewTop" "''Copper1''" CopperTopSuffix prefix dir dmb]
  show ?thesis by (simp add: nothingRendered_def)
next
  case MaskBottom
  with e exportLayers_parts(3)[of env board prefix dir dmb]
    doMask_empty[of env board "maskLayers env NewBottom" "''Mask0''" MaskBottomSuffix prefix dir dmb "[]"]
  show ?thesis by (simp add: nothingRendered_def)
next
  case MaskTop
  with k have two: "boardLayers env = 2"
    by (auto simp: renderedLayers_def layersThroughOutline_def split: if_splits)
  with MaskTop e exportLayers_parts(4)[of env board prefix dir dmb]
    doMask_empty[of env board "maskLayers env NewTop" "''Mask1''" MaskTopSuffix prefix dir dmb "[]"]
  show ?thesis by (simp add: nothingRendered_def)
next
  case PasteMaskBottom
  with e exportLayers_parts(5)[of env board prefix dir dmb]
    doPasteMask_empty[of env board "maskLayers env NewBottom" "''PasteMask0''" PasteMaskBottomSuffix prefix dir dmb]
  show ?thesis by (simp add: nothingRendered_def)
next
  case PasteMaskTop
  with k have two: "boardLayers env = 2"
    by (auto simp: renderedLayers_def layersThroughOutline_def split: if_splits)
  with PasteMaskTop e exportLayers_parts(6)[of env board prefix dir dmb]
    doPasteMask_empty[of env board "maskLayers env NewTop" "''PasteMask1''" PasteMaskTopSuffix prefix dir dmb]
  show ?thesis by (simp add: nothingRendered_def)
next
  case SilkTop
  from exportLayers_parts(7)[of env board prefix dir dmb] obtain clip where
    "set (snd (doSilk env (silkLayers env NewTop) ''Silk1'' SilkTopSuffix board prefix dir dmb clip))
     \<subseteq> set (exportLayers env prefix dir board dmb)" by blast
  with SilkTop e silk
    doSilk_empty[of env board "silkLayers env NewTop" "''Silk1''" SilkTopSuffix prefix dir dmb clip]
  show ?thesis by (simp add: nothingRendered_def)
next
  case SilkBottom
  from exportLayers_parts(8)[of env board prefix dir dmb] obtain clip where
    "set (snd (doSilk env (silkLayers env NewBottom) ''Silk0'' SilkBottomSuffix board prefix dir dmb clip))
     \<subseteq> set (exportLayers env prefix dir board dmb)" by blast
  with SilkBottom e silk
    doSilk_empty[of env board "silkLayers env NewBottom" "''Silk0''" SilkBottomSuffix prefix dir dmb clip]
  show ?thesis by (simp add: nothingRendered_def)
next
  case Outline
  from exportLayers_parts(9)[of env prefix dir board dmb] obtain a b c d where
    "set (exportOutlineAndDrill env prefix dir board dmb a b c d)
     \<subseteq> set (exportLayers env prefix dir board dmb)" by blast
  with Outline e exportOutlineAndDrill_empty[of env board prefix dir dmb a b c d]
  show ?thesis by simp
next
  case DrillLayer
  with k have o: "\<not> nothingRendered env board Outline"
    by (auto simp: renderedLayers_def layersThroughOutline_def split: if_splits)
  from exportLayers_parts(9)[of env prefix dir board dmb] obtain a b c d where
    "set (exportOutlineAndDrill env prefix dir board dmb a b c d)
     \<subseteq> set (exportLayers env prefix dir board dmb)" by blast
  with exportOutlineAndDrill_drill[OF o, of prefix dir dmb a b c d]
  have "set (snd (doDrill env board prefix dir dmb)) \<subseteq> set (exportLayers env prefix dir board dmb)"
    by blast
  with DrillLayer e doDrill_empty[of env board prefix dir dmb]
  show ?thesis by (simp add: nothingRendered_def)
qed


lemmas pipeline_defs =
  exportToGerber_def exportLayers_def exportOutlineAndDrill_def exportPickAndPlace_def
  doCopper_def doMask_def doPasteMask_def doSilk_def doDrill_def doEnd_def saveEnd_def renderTo_def
  clipToBoard_def displayMessages_def displayMessage_def summaryMessage_def collectTreatAsCircle_def
  scaledSize_def Let_def
  CopperBottomSuffix_def CopperTopSuffix_def MaskBottomSuffix_def MaskTopSuffix_def
  PasteMaskBottomSuffix_def PasteMaskTopSuffix_def SilkTopSuffix_def SilkBottomSuffix_def
  OutlineSuffix_def DrillSuffix_def PickAndPlaceSuffix_def MaskClearanceMils_def

lemma noSilk_trace:
  "exportToGerber noSilkEnv ''b'' ''out'' (Some 0) True =
     [FileWritten ''out/b_pnp.xy'' ''RefDes'',
      Render [Copper0, Copper0Trace], FileWritten ''out/b_copperBottom.gbl'' ''G04*'',
      Render [Copper1, Copper1Trace], FileWritten ''out/b_copperTop.gtl'' ''G04*'',
      Render [Mask0], FileWritten ''out/b_maskBottom.gbs'' ''G04*'',
      Render [Mask1], FileWritten ''out/b_maskTop.gts'' ''G04*'',
      Render [Mask0], FileWritten ''out/b_pasteMaskBottom.gbp'' ''G04*'',
      Render [Mask1], FileWritten ''out/b_pasteMaskTop.gtp'' ''G04*'',
      Render [Silkscreen1, Silkscreen1Label], MessageBox ''silk layer Silk1 export is empty'',
      Render [Silkscreen0, Silkscreen0Label],
      Render [Board], FileWritten ''out/b_contour.gm1'' ''G04*'',
      Render [Drill], FileWritten ''out/b_drill.txt'' ''G04*'']"
  by (simp add: pipeline_defs noSilkEnv_def)

lemma noOutline_trace:
  "exportToGerber noOutlineEnv ''b'' ''out'' (Some 0) True =
     [FileWritten ''out/b_pnp.xy'' ''RefDes'',
      Render [Copper0, Copper0Trace], FileWritten ''out/b_copperBottom.gbl'' ''G04*'',
      Render [Copper1, Copper1Trace], FileWritten ''out/b_copperTop.gtl'' ''G04*'',
      Render [Mask0], FileWritten ''out/b_maskBottom.gbs'' ''G04*'',
      Render [Mask1], FileWritten ''out/b_maskTop.gts'' ''G04*'',
      Render [Mask0], FileWritten ''out/b_pasteMaskBottom.gbp'' ''G04*'',
      Render [Mask1], FileWritten ''out/b_pasteMaskTop.gtp'' ''G04*'',
      Render [Silkscreen1, Silkscreen1Label], FileWritten ''out/b_silkTop.gto'' ''G04*'',
      Render [Silkscreen0, Silkscreen0Label], FileWritten ''out/b_silkBottom.gbo'' ''G04*'',
      Render [Board], MessageBox ''outline is empty'']"
  by (simp add: pipeline_defs noSilkEnv_def noOutlineEnv_def)



section \<open>Properties of the donut step\<close>

lemma nodeKey_modifyAt [simp]: "nodeKey (modifyAt k f g n) = nodeKey n"
  by (cases n) simp

lemma modifyAt_modifyAt:
  "modifyAt k f g (modifyAt k f' g' n) = modifyAt k (f \<circ> f') (g \<circ> g') n"
  by (induction n) simp

lemma foldr_max_ge: "(k::nat) \<le> foldr max xs k"
  by (induction xs) (auto simp: max_def)

lemma foldr_max_mem: "(x::nat) \<in> set xs \<Longrightarrow> x \<le> foldr max xs k"
  by (induction xs) (auto simp: max_def)

lemma maxKey_modifyAt [simp]: "maxKey (modifyAt k f g n) = maxKey n"
  by (induction n) (simp add: comp_def cong: map_cong)

lemma key_le_maxKey: "k \<in> set (keys n) \<Longrightarrow> k \<le> maxKey n"
proof (induction n arbitrary: k)
  case (Elem k0 t a cs)
  show ?case
  proof (cases "k = k0")
    case True
    then show ?thesis by (simp add: foldr_max_ge)
  next
    case False
    with Elem.prems obtain c where c: "c \<in> set cs" "k \<in> set (keys c)"
      by (auto simp: keys_def allNodes_def)
    from Elem.IH[OF c] have "k \<le> maxKey c" .
    moreover have "maxKey c \<le> foldr max (map maxKey cs) k0"
      using c(1) by (intro foldr_max_mem) simp
    ultimately show ?thesis by simp
  qed
qed

lemma freshKey_notin: "freshKey n \<notin> set (keys n)"
  using key_le_maxKey[of "freshKey n" n] by (auto simp: freshKey_def)

lemma modifyAt_absent: "k \<notin> set (keys n) \<Longrightarrow> modifyAt k f g n = n"
proof (induction n)
  case (Elem k0 t a cs)
  have "modifyAt k f g c = c" if "c \<in> set cs" for c
    using Elem.IH[OF that] Elem.prems that by (auto simp: keys_def allNodes_def)
  then have "map (modifyAt k f g) cs = cs" by (simp add: map_idI)
  with Elem.prems show ?case by (simp add: keys_def allNodes_def)
qed

lemma modifyAt_insertBefore:
  "modifyAt q f g (insertBefore new k n) = insertBefore (modifyAt q f g new) k (modifyAt q f g n)"
proof (induction n)
  case (Elem k0 t a cs)
  have "map (modifyAt q f g) (concat (map (\<lambda>c. (if nodeKey c = k then [new] else []) @ [insertBefore new k c]) cs))
        = concat (map (\<lambda>c. (if nodeKey c = k then [modifyAt q f g new] else [])
                              @ [insertBefore (modifyAt q f g new) k (modifyAt q f g c)]) cs)"
    using Elem.IH by (induction cs) auto
  then show ?case by (simp add: comp_def)
qed

lemma setAttribute_inserted:
  "q \<notin> set (keys n) \<Longrightarrow>
   setAttribute q name v (insertBefore new k n) = insertBefore (setAttribute q name v new) k n"
  by (simp add: setAttribute_def modifyAt_insertBefore modifyAt_absent)

lemma setAttribute_leaf: "setAttribute q name v (Elem q t a []) = Elem q t (putAttr name v a) []"
  by (simp add: setAttribute_def)

text \<open>
  Claim C1, amended. When the path element with key \<open>k\<close> carries an id that is among
  the ids of the registered connectors and the walk over its parents finds the connector,
  the step takes the id off the path and inserts before it a new circle element with that
  id, whose center is the center of the bounds that the renderer gives for the path, whose
  \<^verbatim>\<open>r\<close> is the connector's radius times \<open>res / SVGDPI\<close> and whose
  \<^verbatim>\<open>stroke-width\<close> is the connector's stroke width times \<open>res / SVGDPI\<close>, each
  printed by \<open>number\<close>.
\<close>

theorem donutStep_circle:
  assumes "findNode k doc = Some path"
    and "attribute path ''id'' \<noteq> []" "attribute path ''id'' \<in> set ids"
    and "findConnector toLong treatAsCircle (attribute path ''id'') (tl (ancestry k doc)) = Some connectorItem"
  shows "donutStep load number toLong res SVGDPI treatAsCircle ids k doc =
     (let p = rectCenter (boundsOnElement (load (setAttribute k ''id'' uniqueId doc)) uniqueId)
      in insertBefore
           (Elem (freshKey doc) ''circle''
              [(''id'', attribute path ''id''),
               (''cx'', number (fst p)), (''cy'', number (snd p)),
               (''r'', number (radius connectorItem * res / SVGDPI)),
               (''stroke-width'', number (strokeWidth connectorItem * res / SVGDPI))] [])
           k (removeAttribute k ''id'' doc))"
proof -
  let ?doc2 = "removeAttribute k ''id'' doc"
  have d2: "removeAttribute k ''id'' (setAttribute k ''id'' uniqueId doc) = ?doc2"
  proof -
    have "dropAttr ''id'' \<circ> putAttr ''id'' uniqueId = dropAttr ''id''"
    proof
      fix a show "(dropAttr ''id'' \<circ> putAttr ''id'' uniqueId) a = dropAttr ''id'' a"
        by (induction a) (auto simp: dropAttr_def)
    qed
    then show ?thesis
      by (simp add: removeAttribute_def setAttribute_def modifyAt_modifyAt comp_def)
  qed
  have fk: "freshKey ?doc2 = freshKey doc"
    by (simp add: freshKey_def removeAttribute_def)
  have fr: "freshKey doc \<notin> set (keys ?doc2)"
    using freshKey_notin[of ?doc2] unfolding fk .
  show ?thesis
    using assms
    by (simp add: donutStep_def Let_def d2 fk setAttribute_inserted[OF fr] setAttribute_leaf)
qed

lemma donutDoc_run:
  "handleDonuts donutRenderer numberDec toLongDec 1000 90 donutDoc [(57, donutConnector)] =
     Elem 0 ''svg'' []
       [Elem 1 ''g'' [(''partID'', ''57'')]
          [Elem 2 ''g'' [(''id'', ''copper0'')]
             [Elem 5 ''circle'' [(''id'', ''connector0pin''), (''cx'', ''30''), (''cy'', ''40''),
                                 (''r'', ''100''), (''stroke-width'', ''200'')] [],
              Elem 3 ''path'' [(''d'', ''M0,0 a1,1 0 1 0 2,0 z'')] [],
              Elem 4 ''path'' [(''id'', ''connector1pin''), (''d'', ''M5,0 a1,1 0 1 0 2,0 z'')] []]]]"
  by (simp add: handleDonuts_def donutStep_def findNode_def ancestry_def elementsByTagName_def
      attribute_def valuesFor_def toLongDec_def digitVal_def donutConnector_def donutRenderer_def
      donutDoc_def rectCenter_def numberDec_def showNat.simps digitChar_def setAttribute_def
      removeAttribute_def dropAttr_def freshKey_def uniqueId_def Let_def)

text \<open>
  Claim C1 as stated fails: with the resolutions 1000 and 90, a connector of radius 9 and
  stroke width 18 yields a circle with \<^verbatim>\<open>r\<close> 100 and \<^verbatim>\<open>stroke-width\<close> 200.
\<close>

theorem handleDonuts_rescaled_counterexample:
  "handleDonuts donutRenderer numberDec toLongDec 1000 90 donutDoc [(57, donutConnector)] =
     Elem 0 ''svg'' []
       [Elem 1 ''g'' [(''partID'', ''57'')]
          [Elem 2 ''g'' [(''id'', ''copper0'')]
             [Elem 5 ''circle'' [(''id'', ''connector0pin''), (''cx'', ''30''), (''cy'', ''40''),
                                 (''r'', ''100''), (''stroke-width'', ''200'')] [],
              Elem 3 ''path'' [(''d'', ''M0,0 a1,1 0 1 0 2,0 z'')] [],
              Elem 4 ''path'' [(''id'', ''connector1pin''), (''d'', ''M5,0 a1,1 0 1 0 2,0 z'')] []]]]
   \<and> numberDec (radius donutConnector) = ''9''
   \<and> numberDec (strokeWidth donutConnector) = ''18''"
proof -
  have "numberDec (radius donutConnector) = ''9''" "numberDec (strokeWidth donutConnector) = ''18''"
    by (simp_all add: donutConnector_def numberDec_def showNat.simps digitChar_def)
  with donutDoc_run show ?thesis by simp
qed

theorem donutStep_circle_witness:
  "findNode 3 donutDoc = Some (Elem 3 ''path'' [(''id'', ''connector0pin''), (''d'', ''M0,0 a1,1 0 1 0 2,0 z'')] [])
   \<and> ''connector0pin'' \<in> set [''connector0pin'']
   \<and> findConnector toLongDec [(57, donutConnector)] ''connector0pin'' (tl (ancestry 3 donutDoc))
       = Some donutConnector
   \<and> donutStep donutRenderer numberDec toLongDec 1000 90 [(57, donutConnector)] [''connector0pin''] 3 donutDoc =
     Elem 0 ''svg'' []
       [Elem 1 ''g'' [(''partID'', ''57'')]
          [Elem 2 ''g'' [(''id'', ''copper0'')]
             [Elem 5 ''circle'' [(''id'', ''connector0pin''), (''cx'', ''30''), (''cy'', ''40''),
                                 (''r'', numberDec (9 * 1000 / 90)),
                                 (''stroke-width'', numberDec (18 * 1000 / 90))] [],
              Elem 3 ''path'' [(''d'', ''M0,0 a1,1 0 1 0 2,0 z'')] [],
              Elem 4 ''path'' [(''id'', ''connector1pin''), (''d'', ''M5,0 a1,1 0 1 0 2,0 z'')] []]]]"
proof -
  let ?path = "Elem 3 ''path'' [(''id'', ''connector0pin''), (''d'', ''M0,0 a1,1 0 1 0 2,0 z'')] []"
  have f: "findNode 3 donutDoc = Some ?path"
    by (simp add: findNode_def ancestry_def donutDoc_def)
  have i: "attribute ?path ''id'' = ''connector0pin''" by (simp add: attribute_def)
  have a: "attribute ?path ''id'' \<noteq> []" and b: "attribute ?path ''id'' \<in> set [''connector0pin'']"
    by (simp_all add: i)
  have c: "findConnector toLongDec [(57, donutConnector)] (attribute ?path ''id'') (tl (ancestry 3 donutDoc))
           = Some donutConnector"
    by (simp add: i ancestry_def donutDoc_def attribute_def valuesFor_def toLongDec_def digitVal_def
        donutConnector_def)
  from donutStep_circle[OF f a b c, of donutRenderer numberDec 1000 90] f c
  show ?thesis
    by (simp add: i donutDoc_def donutRenderer_def donutConnector_def rectCenter_def removeAttribute_def
        dropAttr_def freshKey_def numberDec_def showNat.simps digitChar_def Let_def)
qed

section \<open>Properties of the contour splitting\<close>

lemma checkContours_stopped: "checkContours MultipleZs ps (mc, False) = (mc, False)"
  by (cases ps) simp_all

lemma checkContours_bad:
  assumes "path \<in> set ps" "MultipleZs (trimmed (attribute path ''d''))"
    and "\<not> list_all (\<lambda>subpath. startsWith (trimmed subpath) ''m'' CaseInsensitive)
             (splitZ (attribute path ''d''))"
  shows "checkContours MultipleZs ps (mc, True) = (True, False)"
  using assms
proof (induction ps arbitrary: mc)
  case Nil
  then show ?case by simp
next
  case (Cons x ps)
  show ?case
  proof (cases "x = path")
    case True
    with Cons.prems show ?thesis by (simp add: checkContours_stopped)
  next
    case False
    with Cons.prems have "path \<in> set ps" by simp
    from Cons.IH[OF this Cons.prems(2,3)] show ?thesis
      by (cases "list_all (\<lambda>subpath. startsWith (trimmed subpath) ''m'' CaseInsensitive)
                   (splitZ (attribute x ''d''))")
        (simp_all add: Let_def checkContours_stopped)
  qed
qed



section \<open>Properties of the holes on the edge\<close>

text \<open>The node with a key is the first node of the document, in document order, that
  carries the key.\<close>

lemma chains_nonempty: "ch \<in> set (chainsTo k n) \<Longrightarrow> ch \<noteq> []"
  using chains_hd_key by blast

lemma chains_heads: "map hd (chainsTo k n) = filter (\<lambda>m. nodeKey m = k) (allNodes n)"
proof (induction n)
  case (Elem k0 t a cs)
  have 1: "map hd (map (\<lambda>ch. ch @ [Elem k0 t a cs]) (concat (map (chainsTo k) cs)))
           = map hd (concat (map (chainsTo k) cs))"
    by (auto simp: hd_append dest: chains_nonempty)
  have 2: "map hd (concat (map (chainsTo k) cs)) = concat (map (\<lambda>c. filter (\<lambda>m. nodeKey m = k) (allNodes c)) cs)"
    using Elem.IH by (induction cs) auto
  have 3: "filter (\<lambda>m. nodeKey m = k) (descendants (Elem k0 t a cs))
           = concat (map (\<lambda>c. filter (\<lambda>m. nodeKey m = k) (allNodes c)) cs)"
    by (induction cs) (auto simp: allNodes_def)
  show ?case using 1 2 3 by (auto simp: allNodes_def)
qed

lemma find_filter_case: "List.find P xs = (case filter P xs of [] \<Rightarrow> None | x # _ \<Rightarrow> Some x)"
  by (induction xs) auto

lemma findNode_find: "findNode k n = List.find (\<lambda>m. nodeKey m = k) (allNodes n)"
proof -
  have "findNode k n = (case map hd (chainsTo k n) of [] \<Rightarrow> None | x # _ \<Rightarrow> Some x)"
    using chains_nonempty[of _ k n]
    by (auto simp: findNode_def ancestry_def split: list.splits)
  also have "\<dots> = List.find (\<lambda>m. nodeKey m = k) (allNodes n)"
    unfolding chains_heads by (simp add: find_filter_case)
  finally show ?thesis .
qed

lemma nodeKey_insertAfter [simp]: "nodeKey (insertAfter new k n) = nodeKey n"
  by (cases n) simp

lemma modifyAt_insertAfter:
  "modifyAt q f g (insertAfter new k n) = insertAfter (modifyAt q f g new) k (modifyAt q f g n)"
proof (induction n)
  case (Elem k0 t a cs)
  have "map (modifyAt q f g) (concat (map (\<lambda>c. insertAfter new k c # (if nodeKey c = k then [new] else [])) cs))
        = concat (map (\<lambda>c. insertAfter (modifyAt q f g new) k (modifyAt q f g c)
                              # (if nodeKey c = k then [modifyAt q f g new] else [])) cs)"
    using Elem.IH by (induction cs) auto
  then show ?case by (simp add: comp_def)
qed

lemma modifyAt_insertedAfter:
  "q \<notin> set (keys n) \<Longrightarrow>
   modifyAt q f g (insertAfter new k n) = insertAfter (modifyAt q f g new) k n"
  by (simp add: modifyAt_insertAfter modifyAt_absent)

lemma keys_child: "c \<in> set cs \<Longrightarrow> set (keys c) \<subseteq> set (keys (Elem k t a cs))"
  by (auto simp: keys_def allNodes_def)

lemma removeChild_insertAfter_fresh:
  "q \<notin> set (keys n) \<Longrightarrow> removeChild q (insertAfter (Elem q t a []) k n) = n"
proof (induction n)
  case (Elem k0 t0 a0 cs)
  have nk: "nodeKey c \<noteq> q" if "c \<in> set cs" for c
    using Elem.prems that by (auto simp: keys_def allNodes_def)
  have ih: "removeChild q (insertAfter (Elem q t a []) k c) = c" if "c \<in> set cs" for c
    using Elem.IH[OF that] Elem.prems keys_child[OF that, of k0 t0 a0] by auto
  have "map (removeChild q)
          (filter (\<lambda>c. nodeKey c \<noteq> q)
             (concat (map (\<lambda>c. insertAfter (Elem q t a []) k c # (if nodeKey c = k then [Elem q t a []] else [])) cs)))
        = cs"
    using nk ih by (induction cs) auto
  then show ?case by simp
qed

lemma allNodes_Elem: "allNodes (Elem k t a cs) = Elem k t a cs # concat (map allNodes cs)"
proof -
  have "(\<lambda>c. c # descendants c) = allNodes" by (auto simp: allNodes_def)
  then show ?thesis by (simp add: allNodes_def)
qed

lemma allNodes_insertAfter_subset:
  "m \<in> set (allNodes (insertAfter new k n)) \<Longrightarrow>
   (\<exists>m0\<in>set (allNodes n). m = insertAfter new k m0) \<or> m \<in> set (allNodes new)"
proof (induction n arbitrary: m)
  case (Elem k0 t0 a0 cs)
  let ?cs' = "concat (map (\<lambda>c. insertAfter new k c # (if nodeKey c = k then [new] else [])) cs)"
  from Elem.prems have "m = insertAfter new k (Elem k0 t0 a0 cs) \<or> (\<exists>c'\<in>set ?cs'. m \<in> set (allNodes c'))"
    by (simp add: allNodes_Elem)
  then show ?case
  proof
    assume "m = insertAfter new k (Elem k0 t0 a0 cs)"
    then show ?thesis by (auto simp: allNodes_Elem)
  next
    assume "\<exists>c'\<in>set ?cs'. m \<in> set (allNodes c')"
    then obtain c' where c': "c' \<in> set ?cs'" "m \<in> set (allNodes c')" by blast
    from c'(1) consider c where "c \<in> set cs" "c' = insertAfter new k c" | "c' = new"
      by (auto split: if_splits)
    then show ?thesis
    proof cases
      case 1
      from Elem.IH[OF 1(1)] c'(2) 1(2)
      have "(\<exists>m0\<in>set (allNodes c). m = insertAfter new k m0) \<or> m \<in> set (allNodes new)" by simp
      with 1(1) show ?thesis by (auto simp: allNodes_Elem)
    next
      case 2
      with c'(2) show ?thesis by simp
    qed
  qed
qed

lemma new_in_insertAfter:
  "k \<in> nodeKey ` set (descendants n) \<Longrightarrow> new \<in> set (allNodes (insertAfter new k n))"
proof (induction n)
  case (Elem k0 t0 a0 cs)
  from Elem.prems obtain c where c: "c \<in> set cs" "k = nodeKey c \<or> k \<in> nodeKey ` set (descendants c)"
    by auto
  from c(2) have "new \<in> set (allNodes (insertAfter new k c)) \<or> nodeKey c = k"
    using Elem.IH[OF c(1)] by auto
  then have "new \<in> set (concat (map (\<lambda>c. c # descendants c)
               (insertAfter new k c # (if nodeKey c = k then [new] else []))))"
    by (auto simp: allNodes_def)
  with c(1) show ?case by (auto simp: allNodes_def intro!: bexI[of _ c])
qed

lemma findNode_inserted:
  assumes "q \<notin> set (keys n)" "k \<in> nodeKey ` set (descendants n)"
  shows "findNode q (insertAfter (Elem q t a []) k n) = Some (Elem q t a [])"
proof -
  let ?new = "Elem q t a []"
  let ?n' = "insertAfter ?new k n"
  have a: "m = ?new" if "m \<in> set (allNodes ?n')" "nodeKey m = q" for m
  proof -
    from allNodes_insertAfter_subset[OF that(1)]
    consider m0 where "m0 \<in> set (allNodes n)" "m = insertAfter ?new k m0" | "m \<in> set (allNodes ?new)"
      by auto
    then show ?thesis
    proof cases
      case 1
      then have "nodeKey m \<in> set (keys n)" by (auto simp: keys_def)
      with that(2) assms(1) show ?thesis by simp
    next
      case 2
      then show ?thesis by (simp add: allNodes_def)
    qed
  qed
  have b: "?new \<in> set (allNodes ?n')" by (rule new_in_insertAfter[OF assms(2)])
  obtain x where x: "List.find (\<lambda>m. nodeKey m = q) (allNodes ?n') = Some x"
    using b by (cases "List.find (\<lambda>m. nodeKey m = q) (allNodes ?n')") (auto simp: find_None_iff)
  then have "x \<in> set (allNodes ?n')" "nodeKey x = q"
    by (auto simp: find_Some_iff)
  with a x show ?thesis by (simp add: findNode_find)
qed

lemma map_of_putAttr: "map_of (putAttr name v a) name' = (if name' = name then Some v else map_of a name')"
  by (induction a) auto

lemma holeId_0: "holeId 0 = ''__0__''"
  by (simp add: holeId_def showNat.simps digitChar_def)

lemma insertHoleClones_single:
  assumes "findNode element doc = Some e"
  shows "insertHoleClones toDouble number 0 [element] (doc, []) =
     (insertAfter
        (Elem (freshKey doc) ''circle''
           (putAttr ''r'' (number (toDouble (attribute e ''r'') - toDouble (attribute e ''stroke-width'') / 2))
              (putAttr ''stroke-width'' ''0'' (putAttr ''id'' ''__0__'' (attrs e)))) [])
        element doc,
      [freshKey doc])"
  using assms freshKey_notin[of doc]
  by (simp add: Let_def attributeOf_def holeId_0 setAttribute_def setTagName_def modifyAt_insertedAfter)

lemmas clip_eval =
  clipBoundsAndHoles_def clipPhaseA_def keepEdgeHoles_def circleRenderer_def circleBounds_def
  attribute_def attributeOf_def findNode_def ancestry_def tagOf_def outsideBoard_def unknownMargin_def
  mapRect_def mapPoint_def identityTransform_def rectLeft_def rectTop_def rectRight_def rectBottom_def
  toDoubleDec_def unsignedDec_def digitVal_def numberDec_def showNat.simps digitChar_def holeId_def
  setAttribute_def setTagName_def freshKey_def removeAt_def Let_def

lemma nearEdge_run:
  "clipBoundsAndHoles circleRenderer (QRectF 0 0 100 100) toDoubleDec numberDec ForCopper [2] nearEdgeDoc =
     (Elem 0 ''svg'' []
        [Elem 2 ''g'' [(''id'', ''0''), (''cx'', ''5''), (''cy'', ''50''), (''r'', ''10''), (''stroke-width'', ''2'')] []],
      True)"
  by (simp add: clip_eval nearEdgeDoc_def)

lemma thickRing_run:
  "clipBoundsAndHoles circleRenderer (QRectF 0 0 100 100) toDoubleDec numberDec ForCopper [2] thickRingDoc =
     (Elem 0 ''svg'' []
        [Elem 2 ''g'' [(''id'', ''0''), (''cx'', ''4''), (''cy'', ''50''), (''r'', ''10''), (''stroke-width'', ''12'')] [],
         Elem 3 ''circle'' [(''id'', ''__0__''), (''cx'', ''4''), (''cy'', ''50''), (''r'', ''8''), (''stroke-width'', ''2'')] []],
      True)"
  by (simp add: clip_eval thickRingDoc_def)

lemma nearEdge_bounds:
  "mapRect (transformForElement (circleRenderer nearEdgeDoc) ''0'') (boundsOnElement (circleRenderer nearEdgeDoc) ''0'')
   = QRectF (- 6) 39 22 22"
  by (simp add: clip_eval nearEdgeDoc_def)

lemma thickRing_bounds:
  "mapRect (transformForElement (circleRenderer thickRingDoc) ''0'') (boundsOnElement (circleRenderer thickRingDoc) ''0'')
   = QRectF (- 12) 34 32 32"
  by (simp add: clip_eval thickRingDoc_def)




section \<open>Properties of the mount technology classification\<close>

text \<open>
  Claim C9. The mount-technology classification maps the package name \<^verbatim>\<open>TO-220\<close> to
  \<^verbatim>\<open>THT\<close>, \<^verbatim>\<open>TO-220-LEADLESS\<close> to \<^verbatim>\<open>SMT\<close>, the empty name to \<^verbatim>\<open>MANUAL\<close>, and
  \<^verbatim>\<open>QFN-32\<close>, which contains no keyword, to \<^verbatim>\<open>SMT\<close>.
\<close>

theorem checkMountTechnology_examples:
  "checkMountTechnology ''TO-220'' = ''THT''
   \<and> checkMountTechnology ''TO-220-LEADLESS'' = ''SMT''
   \<and> checkMountTechnology '''' = ''MANUAL''
   \<and> checkMountTechnology ''QFN-32'' = ''SMT''"
  by code_simp

end
